theory Spec2Isabelle
  imports Complex_Main
begin

section \<open>Data model (types.ts, constants.ts)\<close>

datatype AppPhase =
  IDLE | SHADOW_TEST | CANARY_SETUP | MONITORING | ANOMALY_DETECTED | ROLLBACK_CONFIRM | ROLLED_BACK

datatype LogType = info | warning | error | success

datatype MsgType = normal | alert | recommendation | msg_success

datatype Sender = Terra | System | User

datatype Risk = Low | Medium | High

datatype ShadowStatus = shadow_idle | shadow_running | shadow_complete

text \<open>
  \<open>MetricPoint\<close> of types.ts. JavaScript numbers are taken as reals (no claim depends on
  floating-point rounding). The field \<open>timeLabel\<close>, a chart axis label rendered by the
  host's locale, is left out.
\<close>

record MetricPoint =
  timestamp :: int
  latency :: real
  error_rate :: real
  drift_user_region :: real

text \<open>
  \<open>LogEntry\<close>: the id is \<open>Math.random().toString(36).substr(2, 9)\<close>, kept here as the
  draw it is rendered from; the timestamp is the clock in milliseconds.
\<close>

record LogEntry =
  log_id :: real
  log_timestamp :: nat
  event :: string
  details :: string
  log_type :: LogType

record Metadata =
  confidence :: "int option"
  risk :: "Risk option"
  primaryDrift :: "string option"

record AgentMessage =
  msg_id :: real
  msg_text :: string
  msg_timestamp :: nat
  sender :: Sender
  msg_type :: MsgType
  metadata :: "Metadata option"

definition ANOMALY_TICK_INDEX :: nat where
  "ANOMALY_TICK_INDEX = 3"

definition BASELINE_latency_ms :: real where
  "BASELINE_latency_ms = 210"

definition BASELINE_version :: string where
  "BASELINE_version = ''v2.1''"

definition CANDIDATE_version :: string where
  "CANDIDATE_version = ''v3.0''"

definition INITIAL_error_rate :: real where
  "INITIAL_error_rate = 0.008"

definition INITIAL_drift_user_region :: real where
  "INITIAL_drift_user_region = 0.02"

text \<open>\<open>Math.round(210 * 1.22)\<close> is 256.\<close>

definition ANOMALY_latency :: real where
  "ANOMALY_latency = 256"

definition ANOMALY_drift_user_region :: real where
  "ANOMALY_drift_user_region = 0.18"

definition ANOMALY_error_rate :: real where
  "ANOMALY_error_rate = 0.019"

section \<open>Component state (App.tsx)\<close>

text \<open>
  What a \<open>setTimeout\<close> of the component runs when it fires: the shadow-test completion
  (handleStartGuided), an agent message (the three advisory messages of the anomaly
  branch), and the decision timeout of the timeout-warning effect.
\<close>

datatype callback =
  ShadowComplete
  | AgentMsg string MsgType "Metadata option"
  | RecTimeout

record timer =
  tid :: nat
  due :: nat
  cb :: callback

text \<open>
  The \<open>useState\<close> cells and the ref of \<open>App\<close> that the release flow reads or writes,
  and the environment the component runs in:
  \<^item> \<open>simulationInterval\<close> is the next due time of the running \<open>setInterval\<close>, or \<open>None\<close>
    when no interval runs (never started, or cleared);
  \<^item> \<open>timers\<close> are the pending \<open>setTimeout\<close> callbacks, \<open>timeoutId\<close> the handle the
    timeout-warning effect keeps for its cleanup;
  \<^item> \<open>rendered\<close> holds the dependency values (tickIndex, phase, networkEnabled,
    defaultCanaryPercent) of the last render whose effects have run;
  \<^item> \<open>clock\<close> is \<open>Date.now()\<close> in milliseconds; \<open>rand\<close> is the sequence of
    \<open>Math.random()\<close> results and \<open>drawn\<close> how many of them have been used.
  \<open>rolloutDuration\<close> is \<open>parseInt\<close> of the input: \<open>None\<close> is NaN.
  Tab selection, the tour, the chat box and the overview dashboard are view state and
  are not part of the model.
\<close>

record state =
  phase :: AppPhase
  metrics :: "MetricPoint list"
  messages :: "AgentMessage list"
  logs :: "LogEntry list"
  activeModel :: string
  shadowTestStatus :: ShadowStatus
  networkEnabled :: bool
  defaultCanaryPercent :: int
  canaryPercent :: int
  rolloutDuration :: "int option"
  tickIndex :: nat
  showRollbackModal :: bool
  showReleaseNotes :: bool
  recommendationTimeout :: bool
  agentConfidence :: int
  simulationInterval :: "nat option"
  timers :: "timer list"
  nextTimerId :: nat
  timeoutId :: "nat option"
  rendered :: "nat \<times> AppPhase \<times> bool \<times> int"
  clock :: nat
  rand :: "nat \<Rightarrow> real"
  drawn :: nat

subsection \<open>Helpers\<close>

text \<open>Decimal rendering of a number inside a template string.\<close>

fun digits :: "nat \<Rightarrow> string" where
  "digits n = (if n < 10 then [''0123456789'' ! n]
               else digits (n div 10) @ [''0123456789'' ! (n mod 10)])"

declare digits.simps [simp del]

definition show_int :: "int \<Rightarrow> string" where
  "show_int i = (if i < 0 then ''-'' @ digits (nat (- i)) else digits (nat i))"

text \<open>\<open>addLog\<close>: \<open>setLogs(prev => [newLog, ...prev])\<close>, newest first.\<close>

definition addLog :: "string \<Rightarrow> string \<Rightarrow> LogType \<Rightarrow> state \<Rightarrow> state" where
  "addLog ev det ty s =
     s\<lparr>logs := \<lparr>log_id = rand s (drawn s), log_timestamp = clock s,
                 event = ev, details = det, log_type = ty\<rparr> # logs s,
       drawn := drawn s + 1\<rparr>"

text \<open>\<open>addAgentMessage\<close>: \<open>setMessages(prev => [...prev, msg])\<close>, creation order.\<close>

definition addAgentMessage :: "string \<Rightarrow> MsgType \<Rightarrow> Metadata option \<Rightarrow> state \<Rightarrow> state" where
  "addAgentMessage txt ty md s =
     s\<lparr>messages := messages s @
          [\<lparr>msg_id = rand s (drawn s), msg_text = txt, msg_timestamp = clock s,
            sender = Terra, msg_type = ty, metadata = md\<rparr>],
       drawn := drawn s + 1\<rparr>"

definition setTimeout :: "callback \<Rightarrow> nat \<Rightarrow> state \<Rightarrow> state" where
  "setTimeout c delay s =
     s\<lparr>timers := timers s @ [\<lparr>tid = nextTimerId s, due = clock s + delay, cb = c\<rparr>],
       nextTimerId := nextTimerId s + 1\<rparr>"

definition clearTimeout :: "nat option \<Rightarrow> state \<Rightarrow> state" where
  "clearTimeout h s =
     (case h of None \<Rightarrow> s
      | Some i \<Rightarrow> s\<lparr>timers := filter (\<lambda>t. tid t \<noteq> i) (timers s)\<rparr>)"

text \<open>
  The bounded history of the metric effect:
  \<open>const next = [...prev, newPoint]; if (next.length > 30) next.shift(); return next\<close>.
\<close>

definition push :: "'a list \<Rightarrow> 'a \<Rightarrow> 'a list" where
  "push prev p = (let next = prev @ [p] in if length next > 30 then tl next else next)"

text \<open>
  A sample of the metric effect. The three \<open>Math.random()\<close> calls of the object literal
  are the draws \<open>k\<close>, \<open>k + 1\<close>, \<open>k + 2\<close>.
\<close>

definition newPoint :: "bool \<Rightarrow> nat \<Rightarrow> (nat \<Rightarrow> real) \<Rightarrow> nat \<Rightarrow> MetricPoint" where
  "newPoint isAnomaly now r k =
     \<lparr>timestamp = int now,
      latency = (if isAnomaly then ANOMALY_latency + r k * 10
                 else BASELINE_latency_ms + (r k * 10 - 5)),
      error_rate = (if isAnomaly then ANOMALY_error_rate + r (k + 1) * 0.005
                    else INITIAL_error_rate + (r (k + 1) * 0.002 - 0.001)),
      drift_user_region = (if isAnomaly then ANOMALY_drift_user_region + r (k + 2) * 0.02
                           else INITIAL_drift_user_region + r (k + 2) * 0.005)\<rparr>"

text \<open>The \<open>i\<close>-th point of the stable history that \<open>startSimulation\<close> builds.\<close>

definition initialPoint :: "nat \<Rightarrow> (nat \<Rightarrow> real) \<Rightarrow> nat \<Rightarrow> nat \<Rightarrow> MetricPoint" where
  "initialPoint now r k i =
     \<lparr>timestamp = int now - (10 - int i) * 1000,
      latency = BASELINE_latency_ms + (r (k + 3 * i) * 10 - 5),
      error_rate = INITIAL_error_rate + (r (k + 3 * i + 1) * 0.002 - 0.001),
      drift_user_region = INITIAL_drift_user_region + r (k + 3 * i + 2) * 0.005\<rparr>"

definition initialData :: "state \<Rightarrow> MetricPoint list" where
  "initialData s = map (initialPoint (clock s) (rand s) (drawn s)) [0..<10]"

subsection \<open>Message and log texts\<close>

text \<open>
  The literals of App.tsx. Characters outside ASCII are transliterated (dash, apostrophe
  and arrow) and the warning sign of the first advisory message is left out.
\<close>

definition txt_greeting :: string where
  "txt_greeting = ''Hi - I'm Terra. I recommend a 5% canary for 20 minutes. I'll monitor latency, error rate, and feature drift. I will not act without your confirmation.''"

definition txt_shadow_stable :: string where
  "txt_shadow_stable = ''Shadow test stable. No anomalies detected.''"

definition txt_alert :: string where
  "txt_alert = ''Early anomaly detected during canary rollout.''"

definition txt_delta :: string where
  "txt_delta = ''Latency rose 22% (210ms -> 256ms). Feature user_region drift 18% vs baseline 2%. Error rate increased to 1.9%.''"

definition txt_recommendation :: string where
  "txt_recommendation = ''Recommendation: Rollback to v2.1. Confidence: 83%. Options: [Continue Rollout] [Rollback to v2.1]. I will not act without your confirmation.''"

definition txt_continuing :: string where
  "txt_continuing = ''Continuing rollout. Monitoring extended to next 15 minutes. I will notify you immediately if degradation accelerates.''"

definition txt_rollback_done :: string where
  "txt_rollback_done = ''Rollback completed. Model v2.1 restored. I've logged the event and can generate release notes.''"

definition meta_recommendation :: Metadata where
  "meta_recommendation = \<lparr>confidence = Some 83, risk = Some High, primaryDrift = Some ''user_region''\<rparr>"

definition details_continued :: "int \<Rightarrow> string" where
  "details_continued c =
     ''User overrode rollback recommendation. Adjusted Confidence: '' @ show_int c @ ''%.''"

definition details_rollback :: "int \<Rightarrow> string" where
  "details_rollback c =
     ''Reverted to v2.1. Reason: Terra Anomaly Detection. Adjusted Confidence: '' @ show_int c @ ''%.''"

section \<open>Handlers (App.tsx, lines 350 to 437)\<close>

definition clearInterval :: "state \<Rightarrow> state" where
  "clearInterval s = s\<lparr>simulationInterval := None\<rparr>"

text \<open>
  \<open>startSimulation\<close>: clears a running interval, seeds the history with ten baseline
  points (thirty draws), resets the tick counter and starts the one-second interval.
\<close>

definition startSimulation :: "state \<Rightarrow> state" where
  "startSimulation s =
     (let s1 = clearInterval s in
      s1\<lparr>metrics := initialData s1,
         tickIndex := 0,
         simulationInterval := Some (clock s1 + 1000),
         drawn := drawn s1 + 30\<rparr>)"

definition handleStartGuided :: "state \<Rightarrow> state" where
  "handleStartGuided s =
     setTimeout ShadowComplete 2000
       (addAgentMessage txt_greeting normal None
         (addLog ''Shadow Test Initiated'' ''Checking candidate model stability against baseline.'' info
           (s\<lparr>phase := SHADOW_TEST, shadowTestStatus := shadow_running\<rparr>)))"

definition shadowComplete :: "state \<Rightarrow> state" where
  "shadowComplete s =
     addAgentMessage txt_shadow_stable msg_success None
       (addLog ''Shadow Test Completed'' ''Result: Stable. No anomalies detected.'' success
         (s\<lparr>shadowTestStatus := shadow_complete\<rparr>))"

definition handleContinueToSetup :: "state \<Rightarrow> state" where
  "handleContinueToSetup s = s\<lparr>phase := CANARY_SETUP\<rparr>"

definition handleStartCanary :: "state \<Rightarrow> state" where
  "handleStartCanary s =
     startSimulation
       (addLog ''Canary Rollout Started'' ''Traffic split: 95/5. Monitoring started.'' info
         (s\<lparr>phase := MONITORING,
            activeModel := BASELINE_version @ '' (95%) / '' @ CANDIDATE_version @ '' (5%)''\<rparr>))"

definition handleRollbackClick :: "state \<Rightarrow> state" where
  "handleRollbackClick s = s\<lparr>showRollbackModal := True\<rparr>"

text \<open>The Cancel button of the confirmation dialog: \<open>setShowRollbackModal(false)\<close>.\<close>

definition cancelRollback :: "state \<Rightarrow> state" where
  "cancelRollback s = s\<lparr>showRollbackModal := False\<rparr>"

definition handleContinueRollout :: "state \<Rightarrow> state" where
  "handleContinueRollout s =
     addAgentMessage txt_continuing normal None
       (addLog ''Rollout Continued'' (details_continued (agentConfidence s)) warning
         (s\<lparr>recommendationTimeout := False\<rparr>))"

definition confirmRollback :: "state \<Rightarrow> state" where
  "confirmRollback s =
     addAgentMessage txt_rollback_done msg_success None
       (addLog ''Rollback Executed'' (details_rollback (agentConfidence s)) error
         ((clearInterval s)\<lparr>phase := ROLLED_BACK,
            showRollbackModal := False,
            activeModel := BASELINE_version,
            recommendationTimeout := False\<rparr>))"

definition generateNotes :: "state \<Rightarrow> state" where
  "generateNotes s =
     (addLog ''Release Notes Generated'' ''Incident report created successfully.'' success s)
       \<lparr>showReleaseNotes := True\<rparr>"

definition toggleNetwork :: "state \<Rightarrow> state" where
  "toggleNetwork s =
     (let newState = \<not> networkEnabled s; s1 = s\<lparr>networkEnabled := newState\<rparr> in
      if \<not> newState
      then addLog ''Network Failure'' ''Telemetry stream interrupted manually.'' warning s1
      else addLog ''Network Restored'' ''Telemetry resumed.'' success s1)"

definition replayTimeline :: "state \<Rightarrow> state" where
  "replayTimeline s =
     addLog ''Replay'' ''Replaying last session data.'' info
       (startSimulation (s\<lparr>tickIndex := 0\<rparr>))"

text \<open>The interval callback of \<open>startSimulation\<close>: \<open>setTickIndex(prev => prev + 1)\<close>.\<close>

definition intervalTick :: "state \<Rightarrow> state" where
  "intervalTick s =
     (case simulationInterval s of
        None \<Rightarrow> s
      | Some d \<Rightarrow>
          if d \<le> clock s
          then s\<lparr>tickIndex := tickIndex s + 1, simulationInterval := Some (d + 1000)\<rparr>
          else s)"

definition runCallback :: "callback \<Rightarrow> state \<Rightarrow> state" where
  "runCallback c s =
     (case c of
        ShadowComplete \<Rightarrow> shadowComplete s
      | AgentMsg txt ty md \<Rightarrow> addAgentMessage txt ty md s
      | RecTimeout \<Rightarrow> s\<lparr>recommendationTimeout := True\<rparr>)"

text \<open>A pending timeout fires once its delay has passed, and is gone afterwards.\<close>

definition fireTimer :: "nat \<Rightarrow> state \<Rightarrow> state" where
  "fireTimer i s =
     (case filter (\<lambda>t. tid t = i) (timers s) of
        [] \<Rightarrow> s
      | t # _ \<Rightarrow>
          if due t \<le> clock s
          then runCallback (cb t) (s\<lparr>timers := filter (\<lambda>u. tid u \<noteq> i) (timers s)\<rparr>)
          else s)"

section \<open>Effects (App.tsx, lines 156 to 283)\<close>

definition deps :: "state \<Rightarrow> nat \<times> AppPhase \<times> bool \<times> int" where
  "deps s = (tickIndex s, phase s, networkEnabled s, defaultCanaryPercent s)"

text \<open>
  Each effect reads the values of the render it belongs to (\<open>snap\<close>) and queues its
  state updates on the running state.
\<close>

text \<open>Sync of the default canary percent, dependencies \<open>[defaultCanaryPercent, phase]\<close>.\<close>

definition syncEffect :: "state \<Rightarrow> state \<Rightarrow> state" where
  "syncEffect snap s =
     (if phase snap = IDLE then s\<lparr>canaryPercent := defaultCanaryPercent snap\<rparr> else s)"

text \<open>The anomaly branch of the metric effect (lines 244 to 268).\<close>

definition anomalyBranch :: "state \<Rightarrow> state" where
  "anomalyBranch s =
     addLog ''Anomaly Detected'' ''Latency > threshold (+22%), Drift > threshold (0.18).'' warning
       (setTimeout (AgentMsg txt_recommendation recommendation (Some meta_recommendation)) 3000
         (setTimeout (AgentMsg txt_delta alert None) 1500
           (setTimeout (AgentMsg txt_alert alert None) 500
             (s\<lparr>phase := ANOMALY_DETECTED, agentConfidence := 83\<rparr>))))"

text \<open>Metric generation, dependencies \<open>[tickIndex, phase, networkEnabled]\<close>.\<close>

definition metricEffect :: "state \<Rightarrow> state \<Rightarrow> state" where
  "metricEffect snap s =
     (if (phase snap \<noteq> MONITORING \<and> phase snap \<noteq> ANOMALY_DETECTED) \<or> \<not> networkEnabled snap
      then s
      else
        let isAnomaly = (tickIndex snap \<ge> ANOMALY_TICK_INDEX);
            p = newPoint isAnomaly (clock s) (rand s) (drawn s);
            s1 = s\<lparr>metrics := push (metrics s) p, drawn := drawn s + 3\<rparr>
        in if tickIndex snap = ANOMALY_TICK_INDEX \<and> phase snap = MONITORING
           then anomalyBranch s1 else s1)"

text \<open>
  Timeout warning, dependencies \<open>[phase]\<close>: the cleanup of the previous run clears its
  timeout; in ANOMALY_DETECTED a new one of 60000 ms is set.
\<close>

definition timeoutEffect :: "state \<Rightarrow> state \<Rightarrow> state" where
  "timeoutEffect snap s =
     (let s1 = (clearTimeout (timeoutId s) s)\<lparr>timeoutId := None\<rparr> in
      if phase snap = ANOMALY_DETECTED
      then (setTimeout RecTimeout 60000 s1)\<lparr>timeoutId := Some (nextTimerId s1)\<rparr>
      else s1\<lparr>recommendationTimeout := False\<rparr>)"

text \<open>
  Which dependency arrays differ from the previous render: \<open>[defaultCanaryPercent, phase]\<close>
  of the sync effect, \<open>[tickIndex, phase, networkEnabled]\<close> of the metric effect (its
  two callbacks never change) and \<open>[phase]\<close> of the timeout effect.
\<close>

definition phase_changed :: "state \<Rightarrow> bool" where
  "phase_changed s = (fst (snd (rendered s)) \<noteq> phase s)"

definition sync_deps_changed :: "state \<Rightarrow> bool" where
  "sync_deps_changed s = (snd (snd (snd (rendered s))) \<noteq> defaultCanaryPercent s \<or> phase_changed s)"

definition metric_deps_changed :: "state \<Rightarrow> bool" where
  "metric_deps_changed s =
     (fst (rendered s) \<noteq> tickIndex s \<or> phase_changed s \<or>
      fst (snd (snd (rendered s))) \<noteq> networkEnabled s)"

text \<open>
  One round of effects after a render: an effect runs when one of its dependencies
  differs from the previous render, in the order the effects are declared.
\<close>

definition effects_pass :: "state \<Rightarrow> state" where
  "effects_pass s =
     (let s1 = s\<lparr>rendered := deps s\<rparr>;
          s2 = (if sync_deps_changed s then syncEffect s s1 else s1);
          s3 = (if metric_deps_changed s then metricEffect s s2 else s2)
      in if phase_changed s then timeoutEffect s s3 else s3)"

definition dirty :: "state \<Rightarrow> bool" where
  "dirty s = (deps s \<noteq> rendered s)"

text \<open>
  The sampling guard of the metric effect (line 218), the condition of its anomaly
  branch (line 244) under that guard, and the condition under which the branch is
  taken in the next round of effects: the metric effect runs, with the network
  enabled, in MONITORING, at the threshold tick.
\<close>

definition sampling :: "state \<Rightarrow> bool" where
  "sampling s = ((phase s = MONITORING \<or> phase s = ANOMALY_DETECTED) \<and> networkEnabled s)"

definition takes_branch :: "state \<Rightarrow> bool" where
  "takes_branch s =
     (sampling s \<and> tickIndex s = ANOMALY_TICK_INDEX \<and> phase s = MONITORING)"

definition fires :: "state \<Rightarrow> bool" where
  "fires s = (metric_deps_changed s \<and> takes_branch s)"

text \<open>What the anomaly branch logs and schedules, as values.\<close>

definition anomalyLog :: "state \<Rightarrow> LogEntry" where
  "anomalyLog s =
     \<lparr>log_id = rand s (drawn s), log_timestamp = clock s,
      event = ''Anomaly Detected'',
      details = ''Latency > threshold (+22%), Drift > threshold (0.18).'',
      log_type = warning\<rparr>"

definition advisoryTimers :: "nat \<Rightarrow> nat \<Rightarrow> timer list" where
  "advisoryTimers n now =
     [\<lparr>tid = n, due = now + 500, cb = AgentMsg txt_alert alert None\<rparr>,
      \<lparr>tid = n + 1, due = now + 1500, cb = AgentMsg txt_delta alert None\<rparr>,
      \<lparr>tid = n + 2, due = now + 3000,
        cb = AgentMsg txt_recommendation recommendation (Some meta_recommendation)\<rparr>]"

text \<open>
  Rounds of effects follow each other until a render changes no dependency. A round
  changes a dependency only by the anomaly branch (MONITORING to ANOMALY_DETECTED), so
  the rounds end (see the termination proof below).
\<close>

function settle :: "state \<Rightarrow> state" where
  "settle s = (if dirty s then settle (effects_pass s) else s)"
  by pat_completeness auto

section \<open>Events and runs\<close>

text \<open>
  What can happen to the mounted component: a click on one of its controls, the
  interval callback, a pending timeout, or time passing.
\<close>

datatype event =
  StartGuided
  | ContinueToSetup
  | SetCanaryPercent int
  | SetRolloutDuration "int option"
  | StartCanary
  | RollbackClick
  | CancelRollback
  | ContinueRollout
  | SetAgentConfidence int
  | ConfirmRollback
  | GenerateNotes
  | ToggleNetwork
  | SetDefaultCanaryPercent int
  | Replay
  | Tick
  | Fire nat
  | Elapse nat

fun handler :: "event \<Rightarrow> state \<Rightarrow> state" where
  "handler StartGuided s = handleStartGuided s"
| "handler ContinueToSetup s = handleContinueToSetup s"
| "handler (SetCanaryPercent p) s = s\<lparr>canaryPercent := p\<rparr>"
| "handler (SetRolloutDuration d) s = s\<lparr>rolloutDuration := d\<rparr>"
| "handler StartCanary s = handleStartCanary s"
| "handler RollbackClick s = handleRollbackClick s"
| "handler CancelRollback s = cancelRollback s"
| "handler ContinueRollout s = handleContinueRollout s"
| "handler (SetAgentConfidence c) s = s\<lparr>agentConfidence := c\<rparr>"
| "handler ConfirmRollback s = confirmRollback s"
| "handler GenerateNotes s = generateNotes s"
| "handler ToggleNetwork s = toggleNetwork s"
| "handler (SetDefaultCanaryPercent v) s = s\<lparr>defaultCanaryPercent := v\<rparr>"
| "handler Replay s = replayTimeline s"
| "handler Tick s = intervalTick s"
| "handler (Fire i) s = fireTimer i s"
| "handler (Elapse d) s = s\<lparr>clock := clock s + d\<rparr>"

text \<open>An event is handled, the component renders, and the effects run to the end.\<close>

definition step :: "event \<Rightarrow> state \<Rightarrow> state" where
  "step e s = settle (handler e s)"

fun run :: "event list \<Rightarrow> state \<Rightarrow> state" where
  "run [] s = s"
| "run (e # es) s = run es (step e s)"

text \<open>
  The component after mounting, for a stored network flag and default canary percent,
  a sequence of random draws and a clock: the initial values of the \<open>useState\<close> cells,
  with the mount effects done (they change nothing here).
\<close>

definition init :: "bool \<Rightarrow> int \<Rightarrow> (nat \<Rightarrow> real) \<Rightarrow> nat \<Rightarrow> state" where
  "init net dflt r t0 =
     \<lparr>phase = IDLE, metrics = [], messages = [], logs = [],
      activeModel = BASELINE_version, shadowTestStatus = shadow_idle,
      networkEnabled = net, defaultCanaryPercent = dflt, canaryPercent = dflt,
      rolloutDuration = Some 20, tickIndex = 0, showRollbackModal = False,
      showReleaseNotes = False, recommendationTimeout = False, agentConfidence = 83,
      simulationInterval = None, timers = [], nextTimerId = 1, timeoutId = None,
      rendered = (0, IDLE, net, dflt), clock = t0, rand = r, drawn = 0\<rparr>"

text \<open>
  Where the view renders the control of an event (the JSX conditions of App.tsx): the
  start button in IDLE, the continue button once the shadow test is over, the canary
  controls in CANARY_SETUP, the decision box in ANOMALY_DETECTED, the dialog buttons
  while the dialog is shown, the replay button enabled in ROLLED_BACK and
  ANOMALY_DETECTED, the settings at any time. The interval and a timeout fire when due.
\<close>

fun offered :: "event \<Rightarrow> state \<Rightarrow> bool" where
  "offered StartGuided s = (phase s = IDLE)"
| "offered ContinueToSetup s = (phase s = SHADOW_TEST \<and> shadowTestStatus s \<noteq> shadow_running)"
| "offered (SetCanaryPercent p) s = (phase s = CANARY_SETUP \<and> (p = 1 \<or> p = 5 \<or> p = 10))"
| "offered (SetRolloutDuration d) s = (phase s = CANARY_SETUP)"
| "offered StartCanary s = (phase s = CANARY_SETUP)"
| "offered RollbackClick s = (phase s = ANOMALY_DETECTED)"
| "offered CancelRollback s = showRollbackModal s"
| "offered ContinueRollout s = (phase s = ANOMALY_DETECTED)"
| "offered (SetAgentConfidence c) s = (phase s = ANOMALY_DETECTED \<and> 0 \<le> c \<and> c \<le> 100)"
| "offered ConfirmRollback s = showRollbackModal s"
| "offered GenerateNotes s = (phase s = ROLLED_BACK)"
| "offered ToggleNetwork s = True"
| "offered (SetDefaultCanaryPercent v) s = (v = 1 \<or> v = 5 \<or> v = 10)"
| "offered Replay s = (phase s = ROLLED_BACK \<or> phase s = ANOMALY_DETECTED)"
| "offered Tick s = (case simulationInterval s of None \<Rightarrow> False | Some d \<Rightarrow> d \<le> clock s)"
| "offered (Fire i) s = (\<exists>t \<in> set (timers s). tid t = i \<and> due t \<le> clock s)"
| "offered (Elapse d) s = True"

text \<open>A run in which every event is offered when it happens.\<close>

fun offered_run :: "event list \<Rightarrow> state \<Rightarrow> bool" where
  "offered_run [] s = True"
| "offered_run (e # es) s = (offered e s \<and> offered_run es (step e s))"

text \<open>
  How often the anomaly branch has been taken, read off the audit log: the branch is
  the only place that logs this event.
\<close>

definition anomalies :: "state \<Rightarrow> nat" where
  "anomalies s = length (filter (\<lambda>l. event l = ''Anomaly Detected'') (logs s))"

text \<open>
  The phase a handler leaves, read off its \<open>setPhase\<close> call: four handlers set a fixed
  phase, whatever the phase was, and the others have no \<open>setPhase\<close>.
\<close>

fun target :: "event \<Rightarrow> AppPhase \<Rightarrow> AppPhase" where
  "target StartGuided p = SHADOW_TEST"
| "target ContinueToSetup p = CANARY_SETUP"
| "target StartCanary p = MONITORING"
| "target ConfirmRollback p = ROLLED_BACK"
| "target e p = p"


text \<open>
  Sample runs: the mounted component with the network enabled, the default canary
  percent 5, every random draw 0 and the clock at 0; the guided flow up to the canary
  setup (the shadow test completes after its two seconds); the start of the canary;
  three ticks of the interval, one second apart; the rollback, requested and confirmed.
\<close>

definition mounted :: state where
  "mounted = init True 5 (\<lambda>_. 0) 0"

definition to_setup :: "event list" where
  "to_setup = [StartGuided, Elapse 2000, Fire 1, ContinueToSetup]"

definition one_tick :: "event list" where
  "one_tick = [Elapse 1000, Tick]"

definition setup_state :: state where
  "setup_state = run to_setup mounted"

definition monitoring_state :: state where
  "monitoring_state = step StartCanary setup_state"

definition anomaly_state :: state where
  "anomaly_state = run (one_tick @ one_tick @ one_tick) monitoring_state"

definition rolled_back_state :: state where
  "rolled_back_state = run [RollbackClick, ConfirmRollback] anomaly_state"

text \<open>The canary monitored with the network switched off right after its start.\<close>

definition offline_state :: state where
  "offline_state = step ToggleNetwork monitoring_state"

text \<open>
  Two more sample states: the monitored canary one second after its second tick, with
  the third tick due; and the canary monitored offline after three ticks.
\<close>

definition before_threshold_state :: state where
  "before_threshold_state = run (one_tick @ one_tick @ [Elapse 1000]) monitoring_state"

definition offline_threshold_state :: state where
  "offline_threshold_state = run (one_tick @ one_tick @ one_tick) offline_state"

text \<open>The triggers of the specification's transition table.\<close>

datatype trigger =
  start_guided_release | shadow_test_complete | continue_to_setup | start_canary
  | anomaly_confirmed | rollback_requested | rollback_confirmed | rollback_cancelled
  | continue_rollout | replay

text \<open>
  The spec's side of the comparison: the transition table of section 4.1 of the
  specification, row by row. "Any monitoring-adjacent phase" of the replay row is read
  as MONITORING and the phases after it. A pair with no row is an illegal transition,
  which the specification wants reported as \<open>InvalidTransition\<close> with the phase and
  the trigger.
\<close>

definition transition_table :: "((AppPhase \<times> trigger) \<times> AppPhase) list" where
  "transition_table =
     [((IDLE, start_guided_release), SHADOW_TEST),
      ((SHADOW_TEST, shadow_test_complete), SHADOW_TEST),
      ((SHADOW_TEST, continue_to_setup), CANARY_SETUP),
      ((CANARY_SETUP, start_canary), MONITORING),
      ((MONITORING, anomaly_confirmed), ANOMALY_DETECTED),
      ((ANOMALY_DETECTED, rollback_requested), ROLLBACK_CONFIRM),
      ((ROLLBACK_CONFIRM, rollback_confirmed), ROLLED_BACK),
      ((ROLLBACK_CONFIRM, rollback_cancelled), ANOMALY_DETECTED),
      ((ANOMALY_DETECTED, continue_rollout), ANOMALY_DETECTED),
      ((MONITORING, replay), MONITORING),
      ((ANOMALY_DETECTED, replay), MONITORING),
      ((ROLLBACK_CONFIRM, replay), MONITORING),
      ((ROLLED_BACK, replay), MONITORING)]"

definition spec_table :: "AppPhase \<Rightarrow> trigger \<Rightarrow> AppPhase option" where
  "spec_table p t = map_of transition_table (p, t)"

datatype spec_error = InvalidTransition AppPhase trigger

definition spec_apply :: "AppPhase \<Rightarrow> trigger \<Rightarrow> spec_error + AppPhase" where
  "spec_apply p t = (case spec_table p t of None \<Rightarrow> Inl (InvalidTransition p t) | Some q \<Rightarrow> Inr q)"

text \<open>The trigger an action of the operator raises.\<close>

fun trigger_of :: "event \<Rightarrow> trigger option" where
  "trigger_of StartGuided = Some start_guided_release"
| "trigger_of ContinueToSetup = Some continue_to_setup"
| "trigger_of StartCanary = Some start_canary"
| "trigger_of RollbackClick = Some rollback_requested"
| "trigger_of ConfirmRollback = Some rollback_confirmed"
| "trigger_of CancelRollback = Some rollback_cancelled"
| "trigger_of ContinueRollout = Some continue_rollout"
| "trigger_of Replay = Some replay"
| "trigger_of _ = None"

text \<open>The guided scenario up to the start of the canary with 5 percent for 20 minutes.\<close>

definition scenario_start :: "event list" where
  "scenario_start = to_setup @ [SetCanaryPercent 5, SetRolloutDuration (Some 20), StartCanary]"

text \<open>The third tick handled, before its effects have run.\<close>

definition threshold_state :: state where
  "threshold_state = handler Tick before_threshold_state"

text \<open>
  Two properties of the timer handles: every pending timeout has an id below the next
  one to be given out; and between events no handle of a decision timeout is kept
  outside ANOMALY_DETECTED.
\<close>

definition fresh_ids :: "state \<Rightarrow> bool" where
  "fresh_ids s = (\<forall>t \<in> set (timers s). tid t < nextTimerId s)"

definition no_stale_handle :: "state \<Rightarrow> bool" where
  "no_stale_handle s = (\<not> dirty s \<and> (phase s \<noteq> ANOMALY_DETECTED \<longrightarrow> timeoutId s = None))"

text \<open>
  Two more sample states: the confirmation dialog open on the detected anomaly, and the
  detected anomaly with the network switched off.
\<close>

definition dialog_state :: state where
  "dialog_state = step RollbackClick anomaly_state"

definition offline_anomaly_state :: state where
  "offline_anomaly_state = step ToggleNetwork anomaly_state"

section \<open>Field lemmas\<close>

lemma addLog_fields:
  "phase (addLog e d t s) = phase s"
  "tickIndex (addLog e d t s) = tickIndex s"
  "networkEnabled (addLog e d t s) = networkEnabled s"
  "defaultCanaryPercent (addLog e d t s) = defaultCanaryPercent s"
  "rendered (addLog e d t s) = rendered s"
  "metrics (addLog e d t s) = metrics s"
  "simulationInterval (addLog e d t s) = simulationInterval s"
  "showRollbackModal (addLog e d t s) = showRollbackModal s"
  "recommendationTimeout (addLog e d t s) = recommendationTimeout s"
  "agentConfidence (addLog e d t s) = agentConfidence s"
  "timers (addLog e d t s) = timers s"
  "nextTimerId (addLog e d t s) = nextTimerId s"
  "timeoutId (addLog e d t s) = timeoutId s"
  "clock (addLog e d t s) = clock s"
  "rand (addLog e d t s) = rand s"
  "drawn (addLog e d t s) = drawn s + 1"
  "messages (addLog e d t s) = messages s"
  "shadowTestStatus (addLog e d t s) = shadowTestStatus s"
  "canaryPercent (addLog e d t s) = canaryPercent s"
  "rolloutDuration (addLog e d t s) = rolloutDuration s"
  "logs (addLog e d t s) = \<lparr>log_id = rand s (drawn s), log_timestamp = clock s,
      event = e, details = d, log_type = t\<rparr> # logs s"
  by (simp_all add: addLog_def)

lemma addAgentMessage_fields:
  "phase (addAgentMessage x t m s) = phase s"
  "tickIndex (addAgentMessage x t m s) = tickIndex s"
  "networkEnabled (addAgentMessage x t m s) = networkEnabled s"
  "defaultCanaryPercent (addAgentMessage x t m s) = defaultCanaryPercent s"
  "rendered (addAgentMessage x t m s) = rendered s"
  "metrics (addAgentMessage x t m s) = metrics s"
  "simulationInterval (addAgentMessage x t m s) = simulationInterval s"
  "showRollbackModal (addAgentMessage x t m s) = showRollbackModal s"
  "recommendationTimeout (addAgentMessage x t m s) = recommendationTimeout s"
  "agentConfidence (addAgentMessage x t m s) = agentConfidence s"
  "timers (addAgentMessage x t m s) = timers s"
  "nextTimerId (addAgentMessage x t m s) = nextTimerId s"
  "timeoutId (addAgentMessage x t m s) = timeoutId s"
  "clock (addAgentMessage x t m s) = clock s"
  "rand (addAgentMessage x t m s) = rand s"
  "drawn (addAgentMessage x t m s) = drawn s + 1"
  "logs (addAgentMessage x t m s) = logs s"
  "shadowTestStatus (addAgentMessage x t m s) = shadowTestStatus s"
  "canaryPercent (addAgentMessage x t m s) = canaryPercent s"
  "rolloutDuration (addAgentMessage x t m s) = rolloutDuration s"
  "messages (addAgentMessage x t m s) = messages s @
      [\<lparr>msg_id = rand s (drawn s), msg_text = x, msg_timestamp = clock s,
        sender = Terra, msg_type = t, metadata = m\<rparr>]"
  by (simp_all add: addAgentMessage_def)

lemma setTimeout_fields:
  "phase (setTimeout c d s) = phase s"
  "tickIndex (setTimeout c d s) = tickIndex s"
  "networkEnabled (setTimeout c d s) = networkEnabled s"
  "defaultCanaryPercent (setTimeout c d s) = defaultCanaryPercent s"
  "rendered (setTimeout c d s) = rendered s"
  "metrics (setTimeout c d s) = metrics s"
  "simulationInterval (setTimeout c d s) = simulationInterval s"
  "showRollbackModal (setTimeout c d s) = showRollbackModal s"
  "recommendationTimeout (setTimeout c d s) = recommendationTimeout s"
  "agentConfidence (setTimeout c d s) = agentConfidence s"
  "timeoutId (setTimeout c d s) = timeoutId s"
  "clock (setTimeout c d s) = clock s"
  "rand (setTimeout c d s) = rand s"
  "drawn (setTimeout c d s) = drawn s"
  "logs (setTimeout c d s) = logs s"
  "messages (setTimeout c d s) = messages s"
  "shadowTestStatus (setTimeout c d s) = shadowTestStatus s"
  "canaryPercent (setTimeout c d s) = canaryPercent s"
  "rolloutDuration (setTimeout c d s) = rolloutDuration s"
  "nextTimerId (setTimeout c d s) = nextTimerId s + 1"
  "timers (setTimeout c d s) = timers s @ [\<lparr>tid = nextTimerId s, due = clock s + d, cb = c\<rparr>]"
  by (simp_all add: setTimeout_def)

lemma clearTimeout_fields:
  "phase (clearTimeout h s) = phase s"
  "tickIndex (clearTimeout h s) = tickIndex s"
  "networkEnabled (clearTimeout h s) = networkEnabled s"
  "defaultCanaryPercent (clearTimeout h s) = defaultCanaryPercent s"
  "rendered (clearTimeout h s) = rendered s"
  "metrics (clearTimeout h s) = metrics s"
  "simulationInterval (clearTimeout h s) = simulationInterval s"
  "showRollbackModal (clearTimeout h s) = showRollbackModal s"
  "recommendationTimeout (clearTimeout h s) = recommendationTimeout s"
  "agentConfidence (clearTimeout h s) = agentConfidence s"
  "nextTimerId (clearTimeout h s) = nextTimerId s"
  "timeoutId (clearTimeout h s) = timeoutId s"
  "clock (clearTimeout h s) = clock s"
  "rand (clearTimeout h s) = rand s"
  "drawn (clearTimeout h s) = drawn s"
  "logs (clearTimeout h s) = logs s"
  "messages (clearTimeout h s) = messages s"
  "shadowTestStatus (clearTimeout h s) = shadowTestStatus s"
  "canaryPercent (clearTimeout h s) = canaryPercent s"
  "rolloutDuration (clearTimeout h s) = rolloutDuration s"
  by (simp_all add: clearTimeout_def split: option.splits)

lemma clearTimeout_timers:
  "timers (clearTimeout None s) = timers s"
  "timers (clearTimeout (Some i) s) = filter (\<lambda>t. tid t \<noteq> i) (timers s)"
  by (simp_all add: clearTimeout_def)

lemmas helper_fields = addLog_fields addAgentMessage_fields setTimeout_fields clearTimeout_fields

lemma syncEffect_fields:
  "phase (syncEffect snap s) = phase s"
  "tickIndex (syncEffect snap s) = tickIndex s"
  "networkEnabled (syncEffect snap s) = networkEnabled s"
  "defaultCanaryPercent (syncEffect snap s) = defaultCanaryPercent s"
  "rendered (syncEffect snap s) = rendered s"
  "metrics (syncEffect snap s) = metrics s"
  "simulationInterval (syncEffect snap s) = simulationInterval s"
  "showRollbackModal (syncEffect snap s) = showRollbackModal s"
  "recommendationTimeout (syncEffect snap s) = recommendationTimeout s"
  "agentConfidence (syncEffect snap s) = agentConfidence s"
  "timers (syncEffect snap s) = timers s"
  "nextTimerId (syncEffect snap s) = nextTimerId s"
  "timeoutId (syncEffect snap s) = timeoutId s"
  "clock (syncEffect snap s) = clock s"
  "rand (syncEffect snap s) = rand s"
  "drawn (syncEffect snap s) = drawn s"
  "logs (syncEffect snap s) = logs s"
  "messages (syncEffect snap s) = messages s"
  "shadowTestStatus (syncEffect snap s) = shadowTestStatus s"
  "rolloutDuration (syncEffect snap s) = rolloutDuration s"
  "canaryPercent (syncEffect snap s) =
     (if phase snap = IDLE then defaultCanaryPercent snap else canaryPercent s)"
  by (simp_all add: syncEffect_def)

lemma anomalyBranch_fields:
  "phase (anomalyBranch s) = ANOMALY_DETECTED"
  "tickIndex (anomalyBranch s) = tickIndex s"
  "networkEnabled (anomalyBranch s) = networkEnabled s"
  "defaultCanaryPercent (anomalyBranch s) = defaultCanaryPercent s"
  "rendered (anomalyBranch s) = rendered s"
  "metrics (anomalyBranch s) = metrics s"
  "simulationInterval (anomalyBranch s) = simulationInterval s"
  "showRollbackModal (anomalyBranch s) = showRollbackModal s"
  "recommendationTimeout (anomalyBranch s) = recommendationTimeout s"
  "agentConfidence (anomalyBranch s) = 83"
  "timeoutId (anomalyBranch s) = timeoutId s"
  "clock (anomalyBranch s) = clock s"
  "rand (anomalyBranch s) = rand s"
  "drawn (anomalyBranch s) = drawn s + 1"
  "messages (anomalyBranch s) = messages s"
  "shadowTestStatus (anomalyBranch s) = shadowTestStatus s"
  "canaryPercent (anomalyBranch s) = canaryPercent s"
  "rolloutDuration (anomalyBranch s) = rolloutDuration s"
  "nextTimerId (anomalyBranch s) = nextTimerId s + 3"
  "timers (anomalyBranch s) = timers s @ advisoryTimers (nextTimerId s) (clock s)"
  "logs (anomalyBranch s) = anomalyLog s # logs s"
  by (simp_all add: anomalyBranch_def helper_fields anomalyLog_def advisoryTimers_def)

lemma metricEffect_idle:
  "\<not> sampling snap \<Longrightarrow> metricEffect snap s = s"
  by (auto simp add: metricEffect_def sampling_def)

lemma metricEffect_fields:
  "phase (metricEffect snap s) = (if takes_branch snap then ANOMALY_DETECTED else phase s)"
  "tickIndex (metricEffect snap s) = tickIndex s"
  "networkEnabled (metricEffect snap s) = networkEnabled s"
  "defaultCanaryPercent (metricEffect snap s) = defaultCanaryPercent s"
  "rendered (metricEffect snap s) = rendered s"
  "simulationInterval (metricEffect snap s) = simulationInterval s"
  "showRollbackModal (metricEffect snap s) = showRollbackModal s"
  "recommendationTimeout (metricEffect snap s) = recommendationTimeout s"
  "agentConfidence (metricEffect snap s) = (if takes_branch snap then 83 else agentConfidence s)"
  "timeoutId (metricEffect snap s) = timeoutId s"
  "clock (metricEffect snap s) = clock s"
  "rand (metricEffect snap s) = rand s"
  "messages (metricEffect snap s) = messages s"
  "shadowTestStatus (metricEffect snap s) = shadowTestStatus s"
  "canaryPercent (metricEffect snap s) = canaryPercent s"
  "rolloutDuration (metricEffect snap s) = rolloutDuration s"
  "nextTimerId (metricEffect snap s) = (if takes_branch snap then nextTimerId s + 3 else nextTimerId s)"
  "timers (metricEffect snap s) =
     (if takes_branch snap then timers s @ advisoryTimers (nextTimerId s) (clock s) else timers s)"
  "metrics (metricEffect snap s) =
     (if sampling snap
      then push (metrics s) (newPoint (ANOMALY_TICK_INDEX \<le> tickIndex snap) (clock s) (rand s) (drawn s))
      else metrics s)"
  "logs (metricEffect snap s) =
     (if takes_branch snap then anomalyLog (s\<lparr>drawn := drawn s + 3\<rparr>) # logs s else logs s)"
  by (auto simp add: metricEffect_def Let_def sampling_def takes_branch_def anomalyBranch_fields anomalyLog_def)

lemma timeoutEffect_fields:
  "phase (timeoutEffect snap s) = phase s"
  "tickIndex (timeoutEffect snap s) = tickIndex s"
  "networkEnabled (timeoutEffect snap s) = networkEnabled s"
  "defaultCanaryPercent (timeoutEffect snap s) = defaultCanaryPercent s"
  "rendered (timeoutEffect snap s) = rendered s"
  "metrics (timeoutEffect snap s) = metrics s"
  "simulationInterval (timeoutEffect snap s) = simulationInterval s"
  "showRollbackModal (timeoutEffect snap s) = showRollbackModal s"
  "agentConfidence (timeoutEffect snap s) = agentConfidence s"
  "clock (timeoutEffect snap s) = clock s"
  "rand (timeoutEffect snap s) = rand s"
  "drawn (timeoutEffect snap s) = drawn s"
  "logs (timeoutEffect snap s) = logs s"
  "messages (timeoutEffect snap s) = messages s"
  "shadowTestStatus (timeoutEffect snap s) = shadowTestStatus s"
  "canaryPercent (timeoutEffect snap s) = canaryPercent s"
  "rolloutDuration (timeoutEffect snap s) = rolloutDuration s"
  "recommendationTimeout (timeoutEffect snap s) =
     (phase snap = ANOMALY_DETECTED \<and> recommendationTimeout s)"
  "timeoutId (timeoutEffect snap s) =
     (if phase snap = ANOMALY_DETECTED then Some (nextTimerId s) else None)"
  "nextTimerId (timeoutEffect snap s) =
     (if phase snap = ANOMALY_DETECTED then nextTimerId s + 1 else nextTimerId s)"
  "timers (timeoutEffect snap s) =
     timers (clearTimeout (timeoutId s) s) @
     (if phase snap = ANOMALY_DETECTED
      then [\<lparr>tid = nextTimerId s, due = clock s + 60000, cb = RecTimeout\<rparr>] else [])"
  by (simp_all add: timeoutEffect_def Let_def helper_fields)

lemmas effect_fields = syncEffect_fields metricEffect_fields timeoutEffect_fields

lemma effects_pass_kept:
  "rendered (effects_pass s) = deps s"
  "tickIndex (effects_pass s) = tickIndex s"
  "networkEnabled (effects_pass s) = networkEnabled s"
  "defaultCanaryPercent (effects_pass s) = defaultCanaryPercent s"
  "simulationInterval (effects_pass s) = simulationInterval s"
  "showRollbackModal (effects_pass s) = showRollbackModal s"
  "clock (effects_pass s) = clock s"
  "rand (effects_pass s) = rand s"
  "messages (effects_pass s) = messages s"
  "shadowTestStatus (effects_pass s) = shadowTestStatus s"
  "rolloutDuration (effects_pass s) = rolloutDuration s"
  by (simp_all add: effects_pass_def Let_def effect_fields)

lemma effects_pass_changed:
  "phase (effects_pass s) = (if fires s then ANOMALY_DETECTED else phase s)"
  "agentConfidence (effects_pass s) = (if fires s then 83 else agentConfidence s)"
  "logs (effects_pass s) =
     (if fires s then anomalyLog (s\<lparr>drawn := drawn s + 3\<rparr>) # logs s else logs s)"
  "metrics (effects_pass s) =
     (if metric_deps_changed s \<and> sampling s
      then push (metrics s) (newPoint (ANOMALY_TICK_INDEX \<le> tickIndex s) (clock s) (rand s) (drawn s))
      else metrics s)"
  "recommendationTimeout (effects_pass s) =
     (if phase_changed s then phase s = ANOMALY_DETECTED \<and> recommendationTimeout s
      else recommendationTimeout s)"
  "canaryPercent (effects_pass s) =
     (if sync_deps_changed s \<and> phase s = IDLE then defaultCanaryPercent s else canaryPercent s)"
  by (simp_all add: effects_pass_def Let_def effect_fields fires_def anomalyLog_def)

lemma effects_pass_drawn:
  "drawn (effects_pass s) =
     drawn s + (if metric_deps_changed s \<and> sampling s then 3 else 0) + (if fires s then 1 else 0)"
  by (auto simp add: effects_pass_def Let_def effect_fields fires_def metricEffect_def
      anomalyBranch_fields sampling_def takes_branch_def)

lemma fires_dirty: "fires s \<Longrightarrow> dirty s"
  by (cases "rendered s") (auto simp add: fires_def dirty_def deps_def metric_deps_changed_def phase_changed_def)

lemma dirty_effects_pass: "dirty (effects_pass s) = fires s"
  by (auto simp add: dirty_def deps_def effects_pass_kept effects_pass_changed fires_def takes_branch_def)

lemma not_fires_effects_pass: "fires s \<Longrightarrow> \<not> fires (effects_pass s)"
  by (simp add: fires_def takes_branch_def effects_pass_changed)

termination settle
proof (relation "measure (\<lambda>s. (if dirty s then 1 else 0) + (if phase s = MONITORING then 2 else 0))")
  show "wf (measure (\<lambda>s. (if dirty s then 1 else 0) + (if phase s = MONITORING then 2 else (0::nat))))"
    by simp
next
  fix s :: state
  assume "dirty s"
  then show "(effects_pass s, s)
      \<in> measure (\<lambda>s. (if dirty s then 1 else 0) + (if phase s = MONITORING then 2 else 0))"
    by (auto simp add: dirty_effects_pass effects_pass_changed fires_def takes_branch_def)
qed

declare settle.simps [simp del]

lemma settle_clean: "\<not> dirty s \<Longrightarrow> settle s = s"
  by (simp add: settle.simps)

lemma settle_two:
  "settle s =
     (if dirty s then (if fires s then effects_pass (effects_pass s) else effects_pass s) else s)"
proof (cases "dirty s")
  case False
  then show ?thesis by (simp add: settle.simps)
next
  case True
  show ?thesis
  proof (cases "fires s")
    case False
    then have "\<not> dirty (effects_pass s)" by (simp add: dirty_effects_pass)
    then have "settle (effects_pass s) = effects_pass s" by (rule settle_clean)
    with True False show ?thesis by (simp add: settle.simps[of s])
  next
    case f: True
    then have d1: "dirty (effects_pass s)" by (simp add: dirty_effects_pass)
    have "\<not> dirty (effects_pass (effects_pass s))"
      using f by (simp add: dirty_effects_pass not_fires_effects_pass)
    then have "settle (effects_pass (effects_pass s)) = effects_pass (effects_pass s)"
      by (rule settle_clean)
    with True f d1 show ?thesis
      by (simp add: settle.simps[of s] settle.simps[of "effects_pass s"])
  qed
qed

lemma settle_not_dirty: "\<not> dirty (settle s)"
  by (simp add: settle_two dirty_effects_pass not_fires_effects_pass)

lemma fires_pass_facts:
  assumes "fires s"
  shows "phase_changed (effects_pass s)" "metric_deps_changed (effects_pass s)"
    "sampling (effects_pass s)" "\<not> fires (effects_pass s)"
    "phase (effects_pass s) = ANOMALY_DETECTED"
    "tickIndex (effects_pass s) = ANOMALY_TICK_INDEX"
  using assms
  by (simp_all add: fires_def takes_branch_def sampling_def phase_changed_def metric_deps_changed_def
      effects_pass_kept effects_pass_changed deps_def)

lemma settle_kept:
  "tickIndex (settle s) = tickIndex s"
  "networkEnabled (settle s) = networkEnabled s"
  "defaultCanaryPercent (settle s) = defaultCanaryPercent s"
  "simulationInterval (settle s) = simulationInterval s"
  "showRollbackModal (settle s) = showRollbackModal s"
  "clock (settle s) = clock s"
  "rand (settle s) = rand s"
  "messages (settle s) = messages s"
  "shadowTestStatus (settle s) = shadowTestStatus s"
  "rolloutDuration (settle s) = rolloutDuration s"
  by (simp_all add: settle_two effects_pass_kept)

lemma settle_phase: "phase (settle s) = (if fires s then ANOMALY_DETECTED else phase s)"
  using fires_dirty[of s] by (auto simp add: settle_two effects_pass_changed fires_pass_facts)

lemma settle_agentConfidence:
  "agentConfidence (settle s) = (if fires s then 83 else agentConfidence s)"
  using fires_dirty[of s] by (auto simp add: settle_two effects_pass_changed fires_pass_facts)

lemma settle_logs:
  "logs (settle s) = (if fires s then anomalyLog (s\<lparr>drawn := drawn s + 3\<rparr>) # logs s else logs s)"
  using fires_dirty[of s] by (auto simp add: settle_two effects_pass_changed fires_pass_facts)

lemma settle_anomalies: "anomalies (settle s) = anomalies s + (if fires s then 1 else 0)"
  by (simp add: anomalies_def settle_logs anomalyLog_def)

lemma settle_canaryPercent:
  "phase s \<noteq> IDLE \<Longrightarrow> canaryPercent (settle s) = canaryPercent s"
  by (simp add: settle_two effects_pass_changed fires_pass_facts)

lemmas handler_defs = handleStartGuided_def handleContinueToSetup_def handleStartCanary_def
  handleRollbackClick_def cancelRollback_def handleContinueRollout_def confirmRollback_def
  generateNotes_def toggleNetwork_def replayTimeline_def intervalTick_def startSimulation_def
  clearInterval_def Let_def

lemma runCallback_fields:
  "phase (runCallback c s) = phase s"
  "metrics (runCallback c s) = metrics s"
  "tickIndex (runCallback c s) = tickIndex s"
  "networkEnabled (runCallback c s) = networkEnabled s"
  "defaultCanaryPercent (runCallback c s) = defaultCanaryPercent s"
  "rendered (runCallback c s) = rendered s"
  "simulationInterval (runCallback c s) = simulationInterval s"
  "showRollbackModal (runCallback c s) = showRollbackModal s"
  "clock (runCallback c s) = clock s"
  "anomalies (runCallback c s) = anomalies s"
  by (cases c; simp add: runCallback_def shadowComplete_def helper_fields anomalies_def)+

lemma fireTimer_fields:
  "phase (fireTimer i s) = phase s"
  "metrics (fireTimer i s) = metrics s"
  "tickIndex (fireTimer i s) = tickIndex s"
  "networkEnabled (fireTimer i s) = networkEnabled s"
  "defaultCanaryPercent (fireTimer i s) = defaultCanaryPercent s"
  "rendered (fireTimer i s) = rendered s"
  "simulationInterval (fireTimer i s) = simulationInterval s"
  "showRollbackModal (fireTimer i s) = showRollbackModal s"
  "clock (fireTimer i s) = clock s"
  "anomalies (fireTimer i s) = anomalies s"
  by (simp_all add: fireTimer_def runCallback_fields split: list.splits)
     (simp_all add: anomalies_def)

lemma handler_phase: "phase (handler e s) = target e (phase s)"
  by (cases e) (simp_all add: handler_defs helper_fields fireTimer_fields split: option.splits)

lemma handler_metrics:
  "metrics (handler e s) =
     (if e = StartCanary then initialData (addLog ''Canary Rollout Started'' ''Traffic split: 95/5. Monitoring started.'' info s)
      else if e = Replay then initialData s else metrics s)"
  by (cases e) (simp_all add: handler_defs helper_fields fireTimer_fields initialData_def split: option.splits)

lemma handler_networkEnabled:
  "networkEnabled (handler e s) = (if e = ToggleNetwork then \<not> networkEnabled s else networkEnabled s)"
  by (cases e) (simp_all add: handler_defs helper_fields fireTimer_fields split: option.splits)

lemma handler_tickIndex:
  "tickIndex (handler e s) =
     (if e = StartCanary \<or> e = Replay then 0
      else if e = Tick \<and> offered Tick s then tickIndex s + 1 else tickIndex s)"
  by (cases e) (simp_all add: handler_defs helper_fields fireTimer_fields split: option.splits)

lemma handler_showRollbackModal:
  "showRollbackModal (handler e s) =
     (if e = RollbackClick then True
      else if e = CancelRollback \<or> e = ConfirmRollback then False else showRollbackModal s)"
  by (cases e) (simp_all add: handler_defs helper_fields fireTimer_fields split: option.splits)

lemma handler_simulationInterval:
  "simulationInterval (handler e s) =
     (if e = StartCanary \<or> e = Replay then Some (clock s + 1000)
      else if e = ConfirmRollback then None
      else if e = Tick \<and> offered Tick s then map_option (\<lambda>d. d + 1000) (simulationInterval s)
      else simulationInterval s)"
  by (cases e) (simp_all add: handler_defs helper_fields fireTimer_fields split: option.splits)

lemma handler_anomalies: "anomalies (handler e s) = anomalies s"
  by (cases e)
     (simp_all add: fireTimer_fields, simp_all add: handler_defs helper_fields anomalies_def split: option.splits)

lemma handler_rendered: "rendered (handler e s) = rendered s"
  by (cases e) (simp_all add: handler_defs helper_fields fireTimer_fields split: option.splits)

lemma handler_defaultCanaryPercent:
  "defaultCanaryPercent (handler e s) =
     (case e of SetDefaultCanaryPercent v \<Rightarrow> v | _ \<Rightarrow> defaultCanaryPercent s)"
  by (cases e) (simp_all add: handler_defs helper_fields fireTimer_fields split: option.splits)

section \<open>The bounded metric history\<close>





lemma length_initialData: "length (initialData s) = 10"
  by (simp add: initialData_def)






lemma settle_metrics_idle: "\<not> sampling s \<Longrightarrow> metrics (settle s) = metrics s"
  by (simp add: settle_two effects_pass_changed fires_def takes_branch_def)

lemma clean_deps: "\<not> dirty s \<Longrightarrow> rendered s = deps s"
  by (simp add: dirty_def)





section \<open>Steps\<close>

declare handler.simps [simp del]

lemma not_fires:
  "phase s \<noteq> MONITORING \<Longrightarrow> \<not> fires s"
  "tickIndex s \<noteq> ANOMALY_TICK_INDEX \<Longrightarrow> \<not> fires s"
  "\<not> networkEnabled s \<Longrightarrow> \<not> fires s"
  by (simp_all add: fires_def takes_branch_def sampling_def)

lemma step_phase:
  "phase (step e s) = (if fires (handler e s) then ANOMALY_DETECTED else target e (phase s))"
  by (simp add: step_def settle_phase handler_phase)

lemma step_phase_plain:
  "target e (phase s) \<noteq> MONITORING \<Longrightarrow> phase (step e s) = target e (phase s)"
  by (simp add: step_phase not_fires handler_phase)

lemma step_kept:
  "tickIndex (step e s) = tickIndex (handler e s)"
  "networkEnabled (step e s) = networkEnabled (handler e s)"
  "simulationInterval (step e s) = simulationInterval (handler e s)"
  "showRollbackModal (step e s) = showRollbackModal (handler e s)"
  "clock (step e s) = clock (handler e s)"
  "rolloutDuration (step e s) = rolloutDuration (handler e s)"
  by (simp_all add: step_def settle_kept)

lemma step_logs_plain: "\<not> fires (handler e s) \<Longrightarrow> logs (step e s) = logs (handler e s)"
  by (simp add: step_def settle_logs)

lemma step_metrics_idle: "\<not> sampling (handler e s) \<Longrightarrow> metrics (step e s) = metrics (handler e s)"
  by (simp add: step_def settle_metrics_idle)

lemma step_anomalies: "anomalies (step e s) = anomalies s + (if fires (handler e s) then 1 else 0)"
  by (simp add: step_def settle_anomalies handler_anomalies)

lemma step_not_dirty: "\<not> dirty (step e s)"
  by (simp add: step_def settle_not_dirty)

lemma run_append: "run (es @ fs) s = run fs (run es s)"
  by (induction es arbitrary: s) simp_all

lemma offered_run_append: "offered_run (es @ fs) s = (offered_run es s \<and> offered_run fs (run es s))"
  by (induction es arbitrary: s) simp_all

section \<open>Starting the canary\<close>

lemma StartCanary_phase: "phase (step StartCanary s) = MONITORING"
  by (simp add: step_phase not_fires handler_tickIndex ANOMALY_TICK_INDEX_def)

lemma StartCanary_config:
  "canaryPercent (step StartCanary s) = canaryPercent s"
  "rolloutDuration (step StartCanary s) = rolloutDuration s"
  by (simp_all add: step_def settle_canaryPercent settle_kept handler_phase)
     (simp_all add: handler.simps handler_defs helper_fields)

section \<open>After the rollback\<close>

lemma rolled_back_step:
  assumes "phase s = ROLLED_BACK" "offered e s"
  shows "phase (step e s) = ROLLED_BACK"
  using assms by (cases e) (simp_all add: step_phase_plain)




lemma ConfirmRollback_facts:
  "phase (step ConfirmRollback s) = ROLLED_BACK"
  "simulationInterval (step ConfirmRollback s) = None"
  "metrics (step ConfirmRollback s) = metrics s"
  "logs (step ConfirmRollback s) =
     \<lparr>log_id = rand s (drawn s), log_timestamp = clock s, event = ''Rollback Executed'',
      details = details_rollback (agentConfidence s), log_type = error\<rparr> # logs s"
proof -
  have nf: "\<not> fires (handler ConfirmRollback s)" by (simp add: not_fires handler_phase)
  show "phase (step ConfirmRollback s) = ROLLED_BACK" by (simp add: step_phase_plain)
  show "simulationInterval (step ConfirmRollback s) = None"
    by (simp add: step_kept handler_simulationInterval)
  have "\<not> sampling (handler ConfirmRollback s)" by (simp add: sampling_def handler_phase)
  then show "metrics (step ConfirmRollback s) = metrics s"
    by (simp add: step_metrics_idle handler_metrics)
  show "logs (step ConfirmRollback s) =
     \<lparr>log_id = rand s (drawn s), log_timestamp = clock s, event = ''Rollback Executed'',
      details = details_rollback (agentConfidence s), log_type = error\<rparr> # logs s"
    using nf by (simp add: step_logs_plain) (simp add: handler.simps confirmRollback_def helper_fields clearInterval_def)
qed


section \<open>Replay\<close>


section \<open>The network switch\<close>

lemma network_off_step:
  assumes "\<not> networkEnabled s" "e \<noteq> ToggleNetwork" "e \<noteq> StartCanary" "e \<noteq> Replay"
  shows "metrics (step e s) = metrics s" "\<not> networkEnabled (step e s)"
proof -
  have n: "\<not> networkEnabled (handler e s)" using assms(1,2) by (simp add: handler_networkEnabled)
  then have "\<not> sampling (handler e s)" by (simp add: sampling_def)
  then show "metrics (step e s) = metrics s"
    using assms(3,4) by (simp add: step_metrics_idle handler_metrics)
  show "\<not> networkEnabled (step e s)" using n by (simp add: step_kept)
qed

lemma network_off_run:
  "\<not> networkEnabled s \<Longrightarrow> ToggleNetwork \<notin> set es \<Longrightarrow> StartCanary \<notin> set es \<Longrightarrow> Replay \<notin> set es
   \<Longrightarrow> metrics (run es s) = metrics s \<and> \<not> networkEnabled (run es s)"
proof (induction es arbitrary: s)
  case Nil
  then show ?case by simp
next
  case (Cons e es)
  from Cons.prems have ne: "e \<noteq> ToggleNetwork" "e \<noteq> StartCanary" "e \<noteq> Replay"
    and rest: "ToggleNetwork \<notin> set es" "StartCanary \<notin> set es" "Replay \<notin> set es" by auto
  have 1: "metrics (step e s) = metrics s" using Cons.prems(1) ne by (rule network_off_step(1))
  have 2: "\<not> networkEnabled (step e s)" using Cons.prems(1) ne by (rule network_off_step(2))
  from Cons.IH[OF 2 rest] 1 show ?case by simp
qed

lemma network_off_tick:
  assumes "\<not> networkEnabled s" "offered Tick s"
  shows "tickIndex (step Tick s) = tickIndex s + 1" "phase (step Tick s) = phase s"
  using assms by (simp_all add: step_kept handler_tickIndex step_phase not_fires handler_networkEnabled)


section \<open>Sample runs\<close>

lemmas eval_defs = step_def settle_two effects_pass_def dirty_def deps_def fires_def takes_branch_def
  sampling_def metric_deps_changed_def sync_deps_changed_def phase_changed_def
  syncEffect_def metricEffect_def timeoutEffect_def anomalyBranch_def
  addLog_def addAgentMessage_def setTimeout_def clearTimeout_def
  handler.simps handler_defs fireTimer_def runCallback_def shadowComplete_def
  init_def ANOMALY_TICK_INDEX_def push_def initialData_def

lemmas sample_defs = mounted_def to_setup_def one_tick_def setup_state_def monitoring_state_def
  anomaly_state_def rolled_back_state_def

lemma setup_state_fields:
  "phase setup_state = CANARY_SETUP"
  "offered_run to_setup mounted"
  by (simp_all add: sample_defs eval_defs)

lemma monitoring_state_fields:
  "phase monitoring_state = MONITORING"
  "tickIndex monitoring_state = 0"
  "networkEnabled monitoring_state"
  "length (metrics monitoring_state) = 11"
  "anomalies monitoring_state = 0"
  "simulationInterval monitoring_state = Some 3000"
  "clock monitoring_state = 2000"
  by (simp_all add: sample_defs eval_defs anomalies_def)

lemma anomaly_state_fields:
  "phase anomaly_state = ANOMALY_DETECTED"
  "tickIndex anomaly_state = 3"
  "networkEnabled anomaly_state"
  "length (metrics anomaly_state) = 15"
  "anomalies anomaly_state = 1"
  "offered_run (one_tick @ one_tick @ one_tick) monitoring_state"
  "showRollbackModal anomaly_state = False"
  "agentConfidence anomaly_state = 83"
  "timeoutId anomaly_state = Some 5"
  by (simp_all add: sample_defs eval_defs anomalies_def)

lemma handler_clock:
  "clock (handler e s) = (case e of Elapse d \<Rightarrow> clock s + d | _ \<Rightarrow> clock s)"
  by (cases e) (simp_all add: handler.simps handler_defs helper_fields fireTimer_fields split: option.splits)

lemma handler_rolloutDuration:
  "rolloutDuration (handler e s) = (case e of SetRolloutDuration d \<Rightarrow> d | _ \<Rightarrow> rolloutDuration s)"
  by (cases e) (simp_all add: handler.simps handler_defs helper_fields fireTimer_def runCallback_def
      shadowComplete_def split: option.splits list.splits callback.splits)

lemma tick_after_second:
  assumes "simulationInterval s = Some (clock s + 1000)"
  shows "offered_run one_tick s"
  using assms
  by (simp add: one_tick_def step_kept handler_simulationInterval handler_clock)

section \<open>Claims on starting the canary and on replay\<close>

text \<open>
  Claim C9, as the code has it. \<open>handleStartCanary\<close> validates nothing: with any canary
  percent and any rollout duration (zero, negative and NaN included) set beforehand, it
  enters MONITORING, and both values stay as they were set. No error is reported; the
  handlers return no error at all.
\<close>

theorem start_canary_unvalidated:
  "phase (run [SetCanaryPercent p, SetRolloutDuration d, StartCanary] s) = MONITORING
   \<and> rolloutDuration (run [SetCanaryPercent p, SetRolloutDuration d, StartCanary] s) = d
   \<and> (phase s \<noteq> IDLE \<longrightarrow>
        canaryPercent (run [SetCanaryPercent p, SetRolloutDuration d, StartCanary] s) = p)"
proof (intro conjI impI)
  show "phase (run [SetCanaryPercent p, SetRolloutDuration d, StartCanary] s) = MONITORING"
    by (simp add: StartCanary_phase)
  show "rolloutDuration (run [SetCanaryPercent p, SetRolloutDuration d, StartCanary] s) = d"
    by (simp add: StartCanary_config) (simp add: step_kept handler_rolloutDuration)
next
  assume ph: "phase s \<noteq> IDLE"
  let ?a = "step (SetCanaryPercent p) s"
  have 1: "phase (handler (SetCanaryPercent p) s) \<noteq> IDLE" using ph by (simp add: handler_phase)
  then have a: "canaryPercent ?a = p"
    by (simp add: step_def settle_canaryPercent) (simp add: handler.simps)
  have pa: "phase ?a \<noteq> IDLE" using ph by (simp add: step_phase)
  then have "phase (handler (SetRolloutDuration d) ?a) \<noteq> IDLE" by (simp add: handler_phase)
  then have "canaryPercent (step (SetRolloutDuration d) ?a) = p"
    using a by (simp add: step_def settle_canaryPercent) (simp add: handler.simps)
  then show "canaryPercent (run [SetCanaryPercent p, SetRolloutDuration d, StartCanary] s) = p"
    by (simp add: StartCanary_config)
qed

theorem start_canary_unvalidated_witness:
  "phase (run [SetCanaryPercent 5, SetRolloutDuration (Some (- 3)), StartCanary] setup_state) = MONITORING
   \<and> rolloutDuration (run [SetCanaryPercent 5, SetRolloutDuration (Some (- 3)), StartCanary] setup_state) = Some (- 3)
   \<and> canaryPercent (run [SetCanaryPercent 5, SetRolloutDuration (Some (- 3)), StartCanary] setup_state) = 5"
  using start_canary_unvalidated[of 5 "Some (- 3)" setup_state] setup_state_fields(1)
  by simp

text \<open>
  Against C9 as stated: in CANARY_SETUP the duration 0 is typed into the input and the
  canary is started; the duration is stored as 0 and the phase is MONITORING.
\<close>

theorem start_canary_counterexample:
  "phase setup_state = CANARY_SETUP
   \<and> offered (SetRolloutDuration (Some 0)) setup_state
   \<and> offered StartCanary (step (SetRolloutDuration (Some 0)) setup_state)
   \<and> rolloutDuration (run [SetRolloutDuration (Some 0), StartCanary] setup_state) = Some 0
   \<and> phase (run [SetRolloutDuration (Some 0), StartCanary] setup_state) = MONITORING"
  by (simp add: setup_state_fields StartCanary_phase StartCanary_config step_phase_plain)
     (simp add: step_kept handler_rolloutDuration)



lemma rolled_back_state_reached:
  "offered_run [RollbackClick, ConfirmRollback] anomaly_state"
  by (simp add: anomaly_state_fields step_kept handler_showRollbackModal)



lemma offline_state_fields:
  "phase offline_state = MONITORING"
  "\<not> networkEnabled offline_state"
  "tickIndex offline_state = 0"
  "offered_run one_tick offline_state"
proof -
  show "phase offline_state = MONITORING"
    by (simp add: offline_state_def step_phase monitoring_state_fields not_fires handler_tickIndex
        ANOMALY_TICK_INDEX_def)
  show "\<not> networkEnabled offline_state"
    by (simp add: offline_state_def step_kept handler_networkEnabled monitoring_state_fields)
  show "tickIndex offline_state = 0"
    by (simp add: offline_state_def step_kept handler_tickIndex monitoring_state_fields)
  have "simulationInterval offline_state = Some (clock offline_state + 1000)"
    by (simp add: offline_state_def step_kept handler_simulationInterval handler_clock
        monitoring_state_fields)
  then show "offered_run one_tick offline_state" by (rule tick_after_second)
qed

section \<open>The anomaly within a monitoring session\<close>

lemma offered_target_monitoring:
  "phase s = MONITORING \<Longrightarrow> offered e s \<Longrightarrow>
   target e (phase s) = MONITORING \<or> target e (phase s) = ROLLED_BACK"
  by (cases e) simp_all

lemma offered_target_after:
  "phase s = ANOMALY_DETECTED \<or> phase s = ROLLED_BACK \<Longrightarrow> offered e s \<Longrightarrow>
   target e (phase s) = ANOMALY_DETECTED \<or> target e (phase s) = ROLLED_BACK"
  by (cases e) auto

lemma offered_tickIndex_monitoring:
  "phase s = MONITORING \<Longrightarrow> offered e s \<Longrightarrow> tickIndex s \<le> tickIndex (handler e s)"
  by (cases e) (simp_all add: handler_tickIndex)

lemma after_anomaly_step:
  assumes "phase s = ANOMALY_DETECTED \<or> phase s = ROLLED_BACK" "offered e s"
  shows "phase (step e s) = ANOMALY_DETECTED \<or> phase (step e s) = ROLLED_BACK"
    "anomalies (step e s) = anomalies s"
proof -
  from assms have t: "target e (phase s) = ANOMALY_DETECTED \<or> target e (phase s) = ROLLED_BACK"
    by (rule offered_target_after)
  then have nf: "\<not> fires (handler e s)" by (auto simp add: not_fires handler_phase)
  from t nf show "phase (step e s) = ANOMALY_DETECTED \<or> phase (step e s) = ROLLED_BACK"
    by (simp add: step_phase)
  from nf show "anomalies (step e s) = anomalies s" by (simp add: step_anomalies)
qed

lemma after_anomaly_run:
  "phase s = ANOMALY_DETECTED \<or> phase s = ROLLED_BACK \<Longrightarrow> offered_run es s \<Longrightarrow>
   anomalies (run es s) = anomalies s \<and>
   (phase (run es s) = ANOMALY_DETECTED \<or> phase (run es s) = ROLLED_BACK)"
proof (induction es arbitrary: s)
  case Nil
  then show ?case by simp
next
  case (Cons e es)
  from Cons.prems(2) have o: "offered e s" "offered_run es (step e s)" by simp_all
  have 1: "phase (step e s) = ANOMALY_DETECTED \<or> phase (step e s) = ROLLED_BACK"
    using Cons.prems(1) o(1) by (rule after_anomaly_step)
  have 2: "anomalies (step e s) = anomalies s"
    using Cons.prems(1) o(1) by (rule after_anomaly_step)
  from Cons.IH[OF 1 o(2)] 2 show ?case by simp
qed

lemma session_at_most_once:
  "phase s = MONITORING \<Longrightarrow> offered_run es s \<Longrightarrow> anomalies (run es s) \<le> anomalies s + 1"
proof (induction es arbitrary: s)
  case Nil
  then show ?case by simp
next
  case (Cons e es)
  from Cons.prems(2) have o: "offered e s" "offered_run es (step e s)" by simp_all
  show ?case
  proof (cases "fires (handler e s)")
    case True
    then have "phase (step e s) = ANOMALY_DETECTED" "anomalies (step e s) = anomalies s + 1"
      by (simp_all add: step_phase step_anomalies)
    with after_anomaly_run[of "step e s" es] o(2) show ?thesis by simp
  next
    case False
    then have a: "anomalies (step e s) = anomalies s" by (simp add: step_anomalies)
    from False have p: "phase (step e s) = target e (phase s)" by (simp add: step_phase)
    from offered_target_monitoring[OF Cons.prems(1) o(1)] show ?thesis
    proof
      assume "target e (phase s) = MONITORING"
      with p have "phase (step e s) = MONITORING" by simp
      from Cons.IH[OF this o(2)] a show ?thesis by simp
    next
      assume "target e (phase s) = ROLLED_BACK"
      with p have "phase (step e s) = ANOMALY_DETECTED \<or> phase (step e s) = ROLLED_BACK" by simp
      from after_anomaly_run[OF this o(2)] a show ?thesis by simp
    qed
  qed
qed

lemma fires_only_at_threshold:
  assumes "anomalies (step e s) \<noteq> anomalies s"
  shows "anomalies (step e s) = anomalies s + 1" "tickIndex (step e s) = ANOMALY_TICK_INDEX"
    "networkEnabled (step e s)" "phase (handler e s) = MONITORING"
    "phase (step e s) = ANOMALY_DETECTED"
proof -
  from assms have f: "fires (handler e s)" by (simp add: step_anomalies split: if_splits)
  then show "anomalies (step e s) = anomalies s + 1" by (simp add: step_anomalies)
  from f show "tickIndex (step e s) = ANOMALY_TICK_INDEX" by (simp add: step_kept fires_def takes_branch_def)
  from f show "networkEnabled (step e s)"
    by (simp add: step_kept fires_def takes_branch_def sampling_def)
  from f show "phase (handler e s) = MONITORING" by (simp add: fires_def takes_branch_def)
  from f show "phase (step e s) = ANOMALY_DETECTED" by (simp add: step_phase)
qed

lemma threshold_tick_fires:
  assumes "\<not> dirty s" "phase s = MONITORING" "networkEnabled s"
    "tickIndex s + 1 = ANOMALY_TICK_INDEX" "offered Tick s"
  shows "fires (handler Tick s)"
proof -
  have r: "rendered s = deps s" using assms(1) by (rule clean_deps)
  have "tickIndex (handler Tick s) = tickIndex s + 1" using assms(5) by (simp add: handler_tickIndex)
  moreover have "fst (rendered (handler Tick s)) = tickIndex s"
    using r by (simp add: handler_rendered deps_def)
  ultimately have "metric_deps_changed (handler Tick s)" by (simp add: metric_deps_changed_def)
  moreover have "networkEnabled (handler Tick s)" using assms(3) by (simp add: handler_networkEnabled)
  moreover have "phase (handler Tick s) = MONITORING" using assms(2) by (simp add: handler_phase)
  moreover have "tickIndex (handler Tick s) = ANOMALY_TICK_INDEX"
    using assms(4,5) by (simp add: handler_tickIndex)
  ultimately show ?thesis by (simp add: fires_def takes_branch_def sampling_def)
qed

lemma switch_on_at_threshold_fires:
  assumes "\<not> dirty s" "phase s = MONITORING" "\<not> networkEnabled s" "tickIndex s = ANOMALY_TICK_INDEX"
  shows "fires (handler ToggleNetwork s)"
proof -
  have r: "rendered s = deps s" using assms(1) by (rule clean_deps)
  have n: "networkEnabled (handler ToggleNetwork s)" using assms(3) by (simp add: handler_networkEnabled)
  moreover have "fst (snd (snd (rendered (handler ToggleNetwork s)))) = networkEnabled s"
    using r by (simp add: handler_rendered deps_def)
  ultimately have "metric_deps_changed (handler ToggleNetwork s)"
    using assms(3) by (simp add: metric_deps_changed_def)
  moreover have "phase (handler ToggleNetwork s) = MONITORING" using assms(2) by (simp add: handler_phase)
  moreover have "tickIndex (handler ToggleNetwork s) = ANOMALY_TICK_INDEX"
    using assms(4) by (simp add: handler_tickIndex)
  ultimately show ?thesis using n by (simp add: fires_def takes_branch_def sampling_def)
qed

text \<open>While the network stays off, nothing fires and the session goes on (or is rolled back).\<close>

lemma network_off_session_step:
  assumes "phase s = MONITORING \<or> phase s = ROLLED_BACK" "\<not> networkEnabled s"
    "e \<noteq> ToggleNetwork" "offered e s"
  shows "phase (step e s) = MONITORING \<or> phase (step e s) = ROLLED_BACK"
    "\<not> networkEnabled (step e s)" "anomalies (step e s) = anomalies s"
proof -
  have n: "\<not> networkEnabled (handler e s)" using assms(2,3) by (simp add: handler_networkEnabled)
  then have nf: "\<not> fires (handler e s)" by (simp add: not_fires)
  show "\<not> networkEnabled (step e s)" using n by (simp add: step_kept)
  show "anomalies (step e s) = anomalies s" using nf by (simp add: step_anomalies)
  have "target e (phase s) = MONITORING \<or> target e (phase s) = ROLLED_BACK"
    using assms(1,4) by (cases e) auto
  then show "phase (step e s) = MONITORING \<or> phase (step e s) = ROLLED_BACK"
    using nf by (simp add: step_phase)
qed

lemma network_off_session_run:
  "phase s = MONITORING \<or> phase s = ROLLED_BACK \<Longrightarrow> \<not> networkEnabled s \<Longrightarrow>
   ToggleNetwork \<notin> set es \<Longrightarrow> offered_run es s \<Longrightarrow>
   anomalies (run es s) = anomalies s \<and>
   (phase (run es s) = MONITORING \<or> phase (run es s) = ROLLED_BACK)"
proof (induction es arbitrary: s)
  case Nil
  then show ?case by simp
next
  case (Cons e es)
  from Cons.prems have o: "offered e s" "offered_run es (step e s)" and ne: "e \<noteq> ToggleNetwork"
    and rest: "ToggleNetwork \<notin> set es" by auto
  note st = network_off_session_step[OF Cons.prems(1,2) ne o(1)]
  from Cons.IH[OF st(1) st(2) rest o(2)] st(3) show ?case by simp
qed

text \<open>Past the threshold tick nothing fires any more, whatever the network does.\<close>

lemma past_threshold_step:
  assumes "(phase s = MONITORING \<and> ANOMALY_TICK_INDEX < tickIndex s) \<or> phase s = ROLLED_BACK"
    "offered e s"
  shows "(phase (step e s) = MONITORING \<and> ANOMALY_TICK_INDEX < tickIndex (step e s))
      \<or> phase (step e s) = ROLLED_BACK"
    "anomalies (step e s) = anomalies s"
proof -
  have nf: "\<not> fires (handler e s)"
  proof (cases "phase s = ROLLED_BACK")
    case True
    then have "phase (handler e s) = ROLLED_BACK"
      using assms(2) by (cases e) (simp_all add: handler_phase)
    then show ?thesis by (simp add: not_fires)
  next
    case False
    with assms(1) have m: "phase s = MONITORING" "ANOMALY_TICK_INDEX < tickIndex s" by simp_all
    from offered_tickIndex_monitoring[OF m(1) assms(2)] m(2)
    have "tickIndex (handler e s) \<noteq> ANOMALY_TICK_INDEX" by simp
    then show ?thesis by (simp add: not_fires)
  qed
  then show "anomalies (step e s) = anomalies s" by (simp add: step_anomalies)
  from nf have p: "phase (step e s) = target e (phase s)" by (simp add: step_phase)
  show "(phase (step e s) = MONITORING \<and> ANOMALY_TICK_INDEX < tickIndex (step e s))
      \<or> phase (step e s) = ROLLED_BACK"
  proof (cases "phase s = ROLLED_BACK")
    case True
    then show ?thesis using assms(2) by (simp add: rolled_back_step)
  next
    case False
    with assms(1) have m: "phase s = MONITORING" "ANOMALY_TICK_INDEX < tickIndex s" by simp_all
    from offered_tickIndex_monitoring[OF m(1) assms(2)] m(2)
    have "ANOMALY_TICK_INDEX < tickIndex (step e s)" by (simp add: step_kept)
    with offered_target_monitoring[OF m(1) assms(2)] p show ?thesis by auto
  qed
qed

lemma past_threshold_run:
  "(phase s = MONITORING \<and> ANOMALY_TICK_INDEX < tickIndex s) \<or> phase s = ROLLED_BACK \<Longrightarrow>
   offered_run es s \<Longrightarrow>
   anomalies (run es s) = anomalies s \<and>
   (phase (run es s) = MONITORING \<or> phase (run es s) = ROLLED_BACK)"
proof (induction es arbitrary: s)
  case Nil
  then show ?case by auto
next
  case (Cons e es)
  from Cons.prems(2) have o: "offered e s" "offered_run es (step e s)" by simp_all
  note st = past_threshold_step[OF Cons.prems(1) o(1)]
  from Cons.IH[OF st(1) o(2)] st(2) show ?case by simp
qed


lemma before_threshold_state_fields:
  "phase before_threshold_state = MONITORING"
  "tickIndex before_threshold_state + 1 = ANOMALY_TICK_INDEX"
  "networkEnabled before_threshold_state"
  "offered Tick before_threshold_state"
  "anomalies before_threshold_state = 0"
  by (simp_all add: before_threshold_state_def sample_defs eval_defs anomalies_def)

lemma before_threshold_state_clean: "\<not> dirty before_threshold_state"
  by (simp add: before_threshold_state_def run_append step_not_dirty)

lemma anomaly_state_step: "anomaly_state = step Tick before_threshold_state"
  by (simp add: anomaly_state_def before_threshold_state_def one_tick_def)

lemma offline_threshold_state_fields:
  "phase offline_threshold_state = MONITORING"
  "tickIndex offline_threshold_state = ANOMALY_TICK_INDEX"
  "\<not> networkEnabled offline_threshold_state"
  "anomalies offline_threshold_state = 0"
  "offered_run (one_tick @ one_tick @ one_tick) offline_state"
  "offered_run (one_tick @ [ToggleNetwork, Elapse 1000, Tick]) offline_threshold_state"
  "ANOMALY_TICK_INDEX < tickIndex (run one_tick offline_threshold_state)"
  by (simp_all add: offline_threshold_state_def offline_state_def sample_defs eval_defs anomalies_def)

lemma offline_threshold_state_clean: "\<not> dirty offline_threshold_state"
  by (simp add: offline_threshold_state_def one_tick_def step_not_dirty)

text \<open>
  Claim C2, as the code has it. The anomaly branch is taken at most once in a
  monitoring session (under the events the view offers), and only by a step that ends
  with \<open>tickIndex\<close> at the threshold 3 and the network enabled, which moves MONITORING
  to ANOMALY_DETECTED. With the network enabled, the tick that brings \<open>tickIndex\<close> to 3
  takes it. Firings are counted by the "Anomaly Detected" entries of the audit log.
\<close>

theorem anomaly_at_most_once_at_threshold:
  "(phase s = MONITORING \<and> offered_run es s \<longrightarrow> anomalies (run es s) \<le> anomalies s + 1)
   \<and> (anomalies (step e s) \<noteq> anomalies s \<longrightarrow>
        anomalies (step e s) = anomalies s + 1
        \<and> tickIndex (step e s) = ANOMALY_TICK_INDEX
        \<and> networkEnabled (step e s)
        \<and> phase (handler e s) = MONITORING
        \<and> phase (step e s) = ANOMALY_DETECTED)
   \<and> (\<not> dirty s \<and> phase s = MONITORING \<and> networkEnabled s
        \<and> tickIndex s + 1 = ANOMALY_TICK_INDEX \<and> offered Tick s \<longrightarrow>
        anomalies (step Tick s) = anomalies s + 1
        \<and> phase (step Tick s) = ANOMALY_DETECTED
        \<and> tickIndex (step Tick s) = ANOMALY_TICK_INDEX)"
proof (intro conjI impI)
  assume "phase s = MONITORING \<and> offered_run es s"
  then show "anomalies (run es s) \<le> anomalies s + 1"
    using session_at_most_once[of s es] by simp
next
  assume a: "anomalies (step e s) \<noteq> anomalies s"
  then show "anomalies (step e s) = anomalies s + 1" by (rule fires_only_at_threshold)
  from a show "tickIndex (step e s) = ANOMALY_TICK_INDEX" by (rule fires_only_at_threshold)
  from a show "networkEnabled (step e s)" by (rule fires_only_at_threshold)
  from a show "phase (handler e s) = MONITORING" by (rule fires_only_at_threshold)
  from a show "phase (step e s) = ANOMALY_DETECTED" by (rule fires_only_at_threshold)
next
  assume a: "\<not> dirty s \<and> phase s = MONITORING \<and> networkEnabled s
        \<and> tickIndex s + 1 = ANOMALY_TICK_INDEX \<and> offered Tick s"
  then have f: "fires (handler Tick s)" by (intro threshold_tick_fires) simp_all
  then show "anomalies (step Tick s) = anomalies s + 1" by (simp add: step_anomalies)
  from f show "phase (step Tick s) = ANOMALY_DETECTED" by (simp add: step_phase)
  from f show "tickIndex (step Tick s) = ANOMALY_TICK_INDEX"
    by (simp add: step_kept fires_def takes_branch_def)
qed

theorem anomaly_at_most_once_at_threshold_witness:
  "anomalies (run (one_tick @ one_tick @ one_tick) monitoring_state) \<le> anomalies monitoring_state + 1
   \<and> anomalies (step Tick before_threshold_state) = anomalies before_threshold_state + 1
   \<and> tickIndex (step Tick before_threshold_state) = ANOMALY_TICK_INDEX
   \<and> networkEnabled (step Tick before_threshold_state)
   \<and> phase (handler Tick before_threshold_state) = MONITORING
   \<and> phase (step Tick before_threshold_state) = ANOMALY_DETECTED"
proof -
  have "anomalies (step Tick before_threshold_state) \<noteq> anomalies before_threshold_state"
    using anomaly_state_fields(5) by (simp add: anomaly_state_step before_threshold_state_fields)
  then show ?thesis
    using anomaly_at_most_once_at_threshold[of monitoring_state "one_tick @ one_tick @ one_tick"
        Tick]
      anomaly_at_most_once_at_threshold[of before_threshold_state "[]" Tick]
      monitoring_state_fields(1) anomaly_state_fields(6)
      before_threshold_state_fields before_threshold_state_clean
    by simp
qed

text \<open>
  Against C2 as stated: monitoring with the network off from the start, the third tick
  brings \<open>tickIndex\<close> to 3 and no anomaly is logged, the phase is still MONITORING, and
  none is logged at the fourth tick either.
\<close>

theorem anomaly_never_fires_counterexample:
  "phase offline_state = MONITORING
   \<and> offered_run (one_tick @ one_tick @ one_tick) offline_state
   \<and> tickIndex (run (one_tick @ one_tick @ one_tick) offline_state) = 3
   \<and> phase (run (one_tick @ one_tick @ one_tick) offline_state) = MONITORING
   \<and> anomalies (run (one_tick @ one_tick @ one_tick) offline_state) = 0
   \<and> anomalies (run (one_tick @ one_tick @ one_tick @ one_tick) offline_state) = 0"
proof -
  have "anomalies (run one_tick offline_threshold_state) = anomalies offline_threshold_state"
    using network_off_session_run[of offline_threshold_state one_tick]
      offline_threshold_state_fields
    by (simp add: offered_run_append one_tick_def)
  then have "anomalies (run (one_tick @ one_tick @ one_tick @ one_tick) offline_state) = 0"
    using offline_threshold_state_fields(4)
    by (simp add: offline_threshold_state_def run_append)
  then show ?thesis
    using offline_threshold_state_fields offline_state_fields(1)
    by (simp add: offline_threshold_state_def ANOMALY_TICK_INDEX_def)
qed

text \<open>
  Claim C10, as the code has it. The interval keeps counting while the network is off:
  a tick adds one to \<open>tickIndex\<close>, takes no sample and logs no anomaly. If a monitoring
  session has the network off and it stays off until \<open>tickIndex\<close> is past the threshold
  3, the anomaly never fires in the rest of the session, whatever the view offers
  afterwards, the network switch included. (Switched on again while \<open>tickIndex\<close> is
  still 3, the metric effect runs on the change of \<open>networkEnabled\<close> and the anomaly
  does fire.)
\<close>

theorem anomaly_missed_past_threshold:
  "(phase s = MONITORING \<and> \<not> networkEnabled s \<and> ToggleNetwork \<notin> set es1
      \<and> offered_run (es1 @ es2) s \<and> ANOMALY_TICK_INDEX < tickIndex (run es1 s) \<longrightarrow>
      anomalies (run (es1 @ es2) s) = anomalies s
      \<and> phase (run (es1 @ es2) s) \<noteq> ANOMALY_DETECTED)
   \<and> (\<not> networkEnabled s \<and> offered Tick s \<longrightarrow>
      tickIndex (step Tick s) = tickIndex s + 1
      \<and> anomalies (step Tick s) = anomalies s
      \<and> metrics (step Tick s) = metrics s)"
proof (intro conjI impI)
  assume a: "phase s = MONITORING \<and> \<not> networkEnabled s \<and> ToggleNetwork \<notin> set es1
      \<and> offered_run (es1 @ es2) s \<and> ANOMALY_TICK_INDEX < tickIndex (run es1 s)"
  then have o: "offered_run es1 s" "offered_run es2 (run es1 s)"
    by (simp_all add: offered_run_append)
  from a o(1) have 1: "anomalies (run es1 s) = anomalies s \<and>
      (phase (run es1 s) = MONITORING \<or> phase (run es1 s) = ROLLED_BACK)"
    by (intro network_off_session_run) simp_all
  with a have "(phase (run es1 s) = MONITORING \<and> ANOMALY_TICK_INDEX < tickIndex (run es1 s))
      \<or> phase (run es1 s) = ROLLED_BACK" by blast
  from past_threshold_run[OF this o(2)] 1
  have 2: "anomalies (run (es1 @ es2) s) = anomalies s \<and>
      (phase (run (es1 @ es2) s) = MONITORING \<or> phase (run (es1 @ es2) s) = ROLLED_BACK)"
    by (simp add: run_append)
  then show "anomalies (run (es1 @ es2) s) = anomalies s" by simp
  from 2 show "phase (run (es1 @ es2) s) \<noteq> ANOMALY_DETECTED" by auto
next
  assume a: "\<not> networkEnabled s \<and> offered Tick s"
  then show "tickIndex (step Tick s) = tickIndex s + 1" by (simp add: network_off_tick)
  from a have "\<not> fires (handler Tick s)" by (simp add: not_fires handler_networkEnabled)
  then show "anomalies (step Tick s) = anomalies s" by (simp add: step_anomalies)
  from a show "metrics (step Tick s) = metrics s" by (simp add: network_off_step)
qed

theorem anomaly_missed_past_threshold_witness:
  "anomalies (run (one_tick @ [ToggleNetwork, Elapse 1000, Tick]) offline_threshold_state) =
      anomalies offline_threshold_state
   \<and> phase (run (one_tick @ [ToggleNetwork, Elapse 1000, Tick]) offline_threshold_state) \<noteq> ANOMALY_DETECTED
   \<and> tickIndex (step Tick (step (Elapse 1000) offline_state)) = tickIndex (step (Elapse 1000) offline_state) + 1
   \<and> anomalies (step Tick (step (Elapse 1000) offline_state)) = anomalies (step (Elapse 1000) offline_state)
   \<and> metrics (step Tick (step (Elapse 1000) offline_state)) = metrics (step (Elapse 1000) offline_state)"
proof -
  have 1: "\<not> networkEnabled (step (Elapse 1000) offline_state)"
    by (simp add: step_kept handler_networkEnabled offline_state_fields)
  have 2: "offered Tick (step (Elapse 1000) offline_state)"
    using offline_state_fields(4) by (simp add: one_tick_def)
  have 3: "ToggleNetwork \<notin> set one_tick" by (simp add: one_tick_def)
  show ?thesis
    using anomaly_missed_past_threshold[of offline_threshold_state one_tick
        "[ToggleNetwork, Elapse 1000, Tick]"]
      anomaly_missed_past_threshold[of "step (Elapse 1000) offline_state" "[]" "[]"]
      1 2 3 offline_threshold_state_fields
    by simp
qed

text \<open>
  Against C10 as stated: the network is off while three ticks bring \<open>tickIndex\<close> to 3,
  and nothing has fired; switched on before the fourth tick, the anomaly fires.
\<close>

theorem switch_on_at_threshold_counterexample:
  "phase offline_state = MONITORING
   \<and> offered_run (one_tick @ one_tick @ one_tick) offline_state
   \<and> tickIndex offline_threshold_state = 3
   \<and> anomalies offline_threshold_state = 0
   \<and> offered ToggleNetwork offline_threshold_state
   \<and> networkEnabled (step ToggleNetwork offline_threshold_state)
   \<and> anomalies (step ToggleNetwork offline_threshold_state) = 1
   \<and> phase (step ToggleNetwork offline_threshold_state) = ANOMALY_DETECTED"
proof -
  have f: "fires (handler ToggleNetwork offline_threshold_state)"
    using offline_threshold_state_clean offline_threshold_state_fields(1,3,2)
    by (rule switch_on_at_threshold_fires)
  then have "anomalies (step ToggleNetwork offline_threshold_state) = 1"
    "phase (step ToggleNetwork offline_threshold_state) = ANOMALY_DETECTED"
    "networkEnabled (step ToggleNetwork offline_threshold_state)"
    by (simp_all add: step_anomalies step_phase step_kept handler_networkEnabled
        offline_threshold_state_fields)
  then show ?thesis
    using offline_threshold_state_fields offline_state_fields(1)
    by (simp add: ANOMALY_TICK_INDEX_def)
qed

section \<open>The phase machine\<close>

lemma target_not_confirm: "p \<noteq> ROLLBACK_CONFIRM \<Longrightarrow> target e p \<noteq> ROLLBACK_CONFIRM"
  by (cases e) simp_all

lemma step_not_confirm: "phase s \<noteq> ROLLBACK_CONFIRM \<Longrightarrow> phase (step e s) \<noteq> ROLLBACK_CONFIRM"
  by (simp add: step_phase target_not_confirm)

lemma run_not_confirm: "phase s \<noteq> ROLLBACK_CONFIRM \<Longrightarrow> phase (run es s) \<noteq> ROLLBACK_CONFIRM"
  by (induction es arbitrary: s) (simp_all add: step_not_confirm)

lemma spec_rows:
  "spec_table p start_guided_release = Some q \<Longrightarrow> p = IDLE \<and> q = SHADOW_TEST"
  "spec_table p continue_to_setup = Some q \<Longrightarrow> p = SHADOW_TEST \<and> q = CANARY_SETUP"
  "spec_table p start_canary = Some q \<Longrightarrow> p = CANARY_SETUP \<and> q = MONITORING"
  "spec_table p continue_rollout = Some q \<Longrightarrow> p = ANOMALY_DETECTED \<and> q = ANOMALY_DETECTED"
  by (cases p; simp add: spec_table_def transition_table_def)+

lemma trigger_rows:
  "trigger_of e = Some start_guided_release \<Longrightarrow> e = StartGuided"
  "trigger_of e = Some continue_to_setup \<Longrightarrow> e = ContinueToSetup"
  "trigger_of e = Some start_canary \<Longrightarrow> e = StartCanary"
  "trigger_of e = Some continue_rollout \<Longrightarrow> e = ContinueRollout"
  by (cases e; simp)+

lemma dialog_steps:
  assumes "phase s = ANOMALY_DETECTED"
  shows "phase (step RollbackClick s) = ANOMALY_DETECTED"
    "showRollbackModal (step RollbackClick s)"
    "phase (step CancelRollback s) = ANOMALY_DETECTED"
    "phase (step ConfirmRollback s) = ROLLED_BACK"
    "phase (step Replay s) = ANOMALY_DETECTED"
  using assms by (simp_all add: step_phase_plain step_kept handler_showRollbackModal)

text \<open>
  Claim C1, as the code has it. No handler looks at the phase and none reports an
  error: every action is applied from every phase. A handler leaves the phase its
  \<open>setPhase\<close> sets (SHADOW_TEST for startGuidedRelease, CANARY_SETUP for continueToSetup,
  MONITORING for startCanary, ROLLED_BACK for confirmRollback) and otherwise the phase
  as it was (requestRollback, cancelRollback, continueRollout, replay, the settings);
  after the effects the phase is that one, or ANOMALY_DETECTED when the anomaly fired.
  On the table's rows for start-guided-release, continue-to-setup, start-canary and
  continue-rollout this is the table's target. In ANOMALY_DETECTED a rollback request
  opens the confirmation dialog and keeps the phase, cancel keeps it, confirm gives
  ROLLED_BACK and replay keeps it; the phase ROLLBACK_CONFIRM is never entered.
\<close>

theorem phase_follows_handlers:
  "phase (handler e s) = target e (phase s)
   \<and> phase (step e s) = (if fires (handler e s) then ANOMALY_DETECTED else target e (phase s))
   \<and> (trigger_of e = Some t
        \<and> (t = start_guided_release \<or> t = continue_to_setup \<or> t = start_canary \<or> t = continue_rollout)
        \<and> spec_table (phase s) t = Some q \<longrightarrow> phase (step e s) = q)
   \<and> (phase s = ANOMALY_DETECTED \<longrightarrow>
        phase (step RollbackClick s) = ANOMALY_DETECTED
        \<and> showRollbackModal (step RollbackClick s)
        \<and> phase (step CancelRollback s) = ANOMALY_DETECTED
        \<and> phase (step ConfirmRollback s) = ROLLED_BACK
        \<and> phase (step Replay s) = ANOMALY_DETECTED)
   \<and> phase (run es (init net dflt r t0)) \<noteq> ROLLBACK_CONFIRM"
proof (intro conjI impI)
  show "phase (handler e s) = target e (phase s)" by (rule handler_phase)
  show "phase (step e s) = (if fires (handler e s) then ANOMALY_DETECTED else target e (phase s))"
    by (rule step_phase)
  have "phase (init net dflt r t0) \<noteq> ROLLBACK_CONFIRM" by (simp add: init_def)
  then show "phase (run es (init net dflt r t0)) \<noteq> ROLLBACK_CONFIRM" by (rule run_not_confirm)
next
  assume a: "trigger_of e = Some t
        \<and> (t = start_guided_release \<or> t = continue_to_setup \<or> t = start_canary \<or> t = continue_rollout)
        \<and> spec_table (phase s) t = Some q"
  then consider "t = start_guided_release" | "t = continue_to_setup" | "t = start_canary"
    | "t = continue_rollout" by blast
  then show "phase (step e s) = q"
  proof cases
    case 1
    with a have "e = StartGuided" "phase s = IDLE \<and> q = SHADOW_TEST"
      by (auto dest: trigger_rows spec_rows)
    then show ?thesis by (simp add: step_phase_plain)
  next
    case 2
    with a have "e = ContinueToSetup" "phase s = SHADOW_TEST \<and> q = CANARY_SETUP"
      by (auto dest: trigger_rows spec_rows)
    then show ?thesis by (simp add: step_phase_plain)
  next
    case 3
    with a have "e = StartCanary" "phase s = CANARY_SETUP \<and> q = MONITORING"
      by (auto dest: trigger_rows spec_rows)
    then show ?thesis by (simp add: StartCanary_phase)
  next
    case 4
    with a have "e = ContinueRollout" "phase s = ANOMALY_DETECTED \<and> q = ANOMALY_DETECTED"
      by (auto dest: trigger_rows spec_rows)
    then show ?thesis by (simp add: step_phase_plain)
  qed
qed (simp_all add: dialog_steps)

lemma mounted_phase: "phase mounted = IDLE"
  by (simp add: mounted_def init_def)

theorem phase_follows_handlers_witness:
  "phase (handler StartGuided mounted) = target StartGuided (phase mounted)
   \<and> phase (step StartGuided mounted) =
       (if fires (handler StartGuided mounted) then ANOMALY_DETECTED else target StartGuided (phase mounted))
   \<and> phase (step StartGuided mounted) = SHADOW_TEST
   \<and> phase (step RollbackClick anomaly_state) = ANOMALY_DETECTED
   \<and> showRollbackModal (step RollbackClick anomaly_state)
   \<and> phase (step CancelRollback anomaly_state) = ANOMALY_DETECTED
   \<and> phase (step ConfirmRollback anomaly_state) = ROLLED_BACK
   \<and> phase (step Replay anomaly_state) = ANOMALY_DETECTED
   \<and> phase (run to_setup (init True 5 (\<lambda>_. 0) 0)) \<noteq> ROLLBACK_CONFIRM"
  using phase_follows_handlers[of StartGuided mounted start_guided_release SHADOW_TEST to_setup True 5 "\<lambda>_. 0" 0]
    phase_follows_handlers[of StartGuided anomaly_state start_guided_release SHADOW_TEST to_setup True 5 "\<lambda>_. 0" 0]
    mounted_phase anomaly_state_fields(1)
  by (simp add: not_fires handler_phase)

text \<open>
  Against C1 as stated: continue-to-setup has no row for IDLE, so the specification
  wants \<open>InvalidTransition\<close> and the phase kept; the handler, invoked on the mounted
  component, gives CANARY_SETUP. And in ANOMALY_DETECTED a rollback request, for which
  the table names ROLLBACK_CONFIRM, leaves the phase ANOMALY_DETECTED.
\<close>

theorem silent_transition_counterexample:
  "phase mounted = IDLE
   \<and> trigger_of ContinueToSetup = Some continue_to_setup
   \<and> spec_apply (phase mounted) continue_to_setup = Inl (InvalidTransition IDLE continue_to_setup)
   \<and> phase (step ContinueToSetup mounted) = CANARY_SETUP
   \<and> spec_apply (phase anomaly_state) rollback_requested = Inr ROLLBACK_CONFIRM
   \<and> phase (step RollbackClick anomaly_state) = ANOMALY_DETECTED"
  by (simp add: mounted_phase spec_apply_def spec_table_def transition_table_def step_phase_plain
      anomaly_state_fields)

section \<open>The guided scenario\<close>

lemma scenario_eval:
  "offered_run (scenario_start @ one_tick @ one_tick @ one_tick @ one_tick) (init True dflt r t0)"
  "phase (run (scenario_start @ one_tick @ one_tick) (init True dflt r t0)) = MONITORING"
  "anomalies (run (scenario_start @ one_tick @ one_tick) (init True dflt r t0)) = 0"
  "tickIndex (run (scenario_start @ one_tick @ one_tick @ one_tick) (init True dflt r t0)) = 3"
  "phase (run (scenario_start @ one_tick @ one_tick @ one_tick) (init True dflt r t0)) = ANOMALY_DETECTED"
  "anomalies (run (scenario_start @ one_tick @ one_tick @ one_tick) (init True dflt r t0)) = 1"
  "length (metrics (run (scenario_start @ one_tick @ one_tick @ one_tick) (init True dflt r t0))) = 15"
  "phase (run (scenario_start @ one_tick @ one_tick @ one_tick @ one_tick) (init True dflt r t0)) = ANOMALY_DETECTED"
  "anomalies (run (scenario_start @ one_tick @ one_tick @ one_tick @ one_tick) (init True dflt r t0)) = 1"
  "length (metrics (run (scenario_start @ one_tick @ one_tick @ one_tick @ one_tick) (init True dflt r t0))) = 16"
  "length (metrics (run scenario_start (init True dflt r t0))) = 11"
  "length (metrics (effects_pass (handler Tick
      (run (scenario_start @ one_tick @ one_tick @ [Elapse 1000]) (init True dflt r t0))))) = 14"
  "phase (effects_pass (handler Tick
      (run (scenario_start @ one_tick @ one_tick @ [Elapse 1000]) (init True dflt r t0)))) = ANOMALY_DETECTED"
  "dirty (effects_pass (handler Tick
      (run (scenario_start @ one_tick @ one_tick @ [Elapse 1000]) (init True dflt r t0))))"
  by (simp_all add: scenario_start_def to_setup_def one_tick_def eval_defs anomalies_def)


text \<open>
  Claim C8, as the code has it. In the guided scenario (network enabled, any default
  percent, any random draws, any clock) the canary starts with 11 points: the ten
  warm-up points and the sample the metric effect takes when the phase becomes
  MONITORING. Two ticks later the phase is still MONITORING and nothing has fired. The
  third tick brings \<open>tickIndex\<close> to 3 and fires the anomaly: the effect samples at that
  tick and once more when it re-runs on the phase change, so the history has 15 points.
  After the fourth tick the phase is ANOMALY_DETECTED, the anomaly has fired once, and
  the history has 16 points. (A history of 14 points with the phase ANOMALY_DETECTED
  exists only inside the third tick: it is the render after the first round of
  effects, whose own effects are still to run and add the fifteenth point.)
\<close>

theorem guided_scenario_history:
  "offered_run (scenario_start @ one_tick @ one_tick @ one_tick @ one_tick) (init True dflt r t0)
   \<and> length (metrics (run scenario_start (init True dflt r t0))) = 11
   \<and> phase (run (scenario_start @ one_tick @ one_tick) (init True dflt r t0)) = MONITORING
   \<and> anomalies (run (scenario_start @ one_tick @ one_tick) (init True dflt r t0)) = 0
   \<and> tickIndex (run (scenario_start @ one_tick @ one_tick @ one_tick) (init True dflt r t0)) = 3
   \<and> phase (run (scenario_start @ one_tick @ one_tick @ one_tick) (init True dflt r t0)) = ANOMALY_DETECTED
   \<and> anomalies (run (scenario_start @ one_tick @ one_tick @ one_tick) (init True dflt r t0)) = 1
   \<and> length (metrics (run (scenario_start @ one_tick @ one_tick @ one_tick) (init True dflt r t0))) = 15
   \<and> phase (run (scenario_start @ one_tick @ one_tick @ one_tick @ one_tick) (init True dflt r t0)) = ANOMALY_DETECTED
   \<and> anomalies (run (scenario_start @ one_tick @ one_tick @ one_tick @ one_tick) (init True dflt r t0)) = 1
   \<and> length (metrics (run (scenario_start @ one_tick @ one_tick @ one_tick @ one_tick) (init True dflt r t0))) = 16
   \<and> length (metrics (effects_pass (handler Tick
        (run (scenario_start @ one_tick @ one_tick @ [Elapse 1000]) (init True dflt r t0))))) = 14
   \<and> phase (effects_pass (handler Tick
        (run (scenario_start @ one_tick @ one_tick @ [Elapse 1000]) (init True dflt r t0)))) = ANOMALY_DETECTED
   \<and> dirty (effects_pass (handler Tick
        (run (scenario_start @ one_tick @ one_tick @ [Elapse 1000]) (init True dflt r t0))))"
  by (intro conjI scenario_eval)

theorem guided_scenario_history_witness:
  "offered_run (scenario_start @ one_tick @ one_tick @ one_tick @ one_tick) mounted
   \<and> phase (run (scenario_start @ one_tick @ one_tick @ one_tick @ one_tick) mounted) = ANOMALY_DETECTED
   \<and> anomalies (run (scenario_start @ one_tick @ one_tick @ one_tick @ one_tick) mounted) = 1
   \<and> length (metrics (run (scenario_start @ one_tick @ one_tick @ one_tick @ one_tick) mounted)) = 16"
  using guided_scenario_history[of 5 "\<lambda>_. 0" 0] by (simp add: mounted_def)

text \<open>
  Against C8 as stated: with every event of the scenario offered when it happens, the
  history has 15 points after the third tick and 16 after the fourth, not 14.
\<close>

theorem guided_scenario_counterexample:
  "offered_run (scenario_start @ one_tick @ one_tick @ one_tick @ one_tick) mounted
   \<and> length (metrics (run (scenario_start @ one_tick @ one_tick @ one_tick) mounted)) = 15
   \<and> length (metrics (run (scenario_start @ one_tick @ one_tick @ one_tick @ one_tick) mounted)) = 16
   \<and> length (metrics (run (scenario_start @ one_tick @ one_tick @ one_tick @ one_tick) mounted)) \<noteq> 14"
  by (simp add: mounted_def scenario_eval)

section \<open>The anomaly transition and the decision timeout\<close>

lemma effects_pass_timers_fire:
  assumes "fires s" "timeoutId s = None"
  shows "timers (effects_pass s) = timers s @ advisoryTimers (nextTimerId s) (clock s)"
    "timeoutId (effects_pass s) = None"
    "nextTimerId (effects_pass s) = nextTimerId s + 3"
  using assms
  by (simp_all add: effects_pass_def Let_def effect_fields fires_def takes_branch_def
      clearTimeout_timers)

lemma effects_pass_timers_enter:
  assumes "phase_changed s" "phase s = ANOMALY_DETECTED" "timeoutId s = None"
  shows "timers (effects_pass s) =
      timers s @ [\<lparr>tid = nextTimerId s, due = clock s + 60000, cb = RecTimeout\<rparr>]"
    "timeoutId (effects_pass s) = Some (nextTimerId s)"
  using assms
  by (simp_all add: effects_pass_def Let_def effect_fields takes_branch_def clearTimeout_timers)

lemma settle_fires_timers:
  assumes "fires s" "timeoutId s = None"
  shows "timers (settle s) =
      timers s @ advisoryTimers (nextTimerId s) (clock s) @
      [\<lparr>tid = nextTimerId s + 3, due = clock s + 60000, cb = RecTimeout\<rparr>]"
    "timeoutId (settle s) = Some (nextTimerId s + 3)"
proof -
  let ?p = "effects_pass s"
  have s: "settle s = effects_pass ?p" using assms(1) fires_dirty[of s] by (simp add: settle_two)
  note p1 = effects_pass_timers_fire[OF assms]
  note p2 = effects_pass_timers_enter[OF fires_pass_facts(1)[OF assms(1)]
      fires_pass_facts(5)[OF assms(1)] p1(2)]
  show "timers (settle s) =
      timers s @ advisoryTimers (nextTimerId s) (clock s) @
      [\<lparr>tid = nextTimerId s + 3, due = clock s + 60000, cb = RecTimeout\<rparr>]"
    by (simp add: s p2 p1 effects_pass_kept)
  show "timeoutId (settle s) = Some (nextTimerId s + 3)" by (simp add: s p2 p1)
qed

lemma settle_recommendationTimeout_off:
  "\<not> recommendationTimeout s \<Longrightarrow> \<not> recommendationTimeout (settle s)"
  by (simp add: settle_two effects_pass_changed)

lemma resolved_clears_timeout:
  "\<not> recommendationTimeout (step ContinueRollout u)"
  "\<not> recommendationTimeout (step ConfirmRollback u)"
  by (simp_all add: step_def settle_recommendationTimeout_off handler.simps
      handleContinueRollout_def confirmRollback_def helper_fields)

lemma leaving_clears_timeout:
  assumes "\<not> dirty u" "phase u = ANOMALY_DETECTED" "phase (step e u) \<noteq> ANOMALY_DETECTED"
  shows "\<not> recommendationTimeout (step e u)" "timeoutId (step e u) = None"
proof -
  let ?h = "handler e u"
  have r: "rendered u = deps u" using assms(1) by (rule clean_deps)
  have ph: "phase ?h \<noteq> ANOMALY_DETECTED"
    using assms(3) by (auto simp add: step_phase handler_phase split: if_splits)
  then have nf: "\<not> fires ?h" using assms(3) by (auto simp add: step_phase)
  have pc: "phase_changed ?h"
    using r ph assms(2) by (simp add: phase_changed_def handler_rendered deps_def)
  then have d: "dirty ?h"
    by (cases "rendered ?h") (auto simp add: dirty_def deps_def phase_changed_def)
  have st: "step e u = effects_pass ?h" using d nf by (simp add: step_def settle_two)
  show "\<not> recommendationTimeout (step e u)"
    using pc ph by (simp add: st effects_pass_changed)
  show "timeoutId (step e u) = None"
    using pc ph by (simp add: st effects_pass_def Let_def effect_fields)
qed

lemma elapse_clean:
  "\<not> dirty u \<Longrightarrow> step (Elapse d) u = u\<lparr>clock := clock u + d\<rparr>"
  by (simp add: step_def handler.simps settle_clean dirty_def deps_def)

lemma fire_rec_timeout:
  assumes "filter (\<lambda>t. tid t = i) (timers u) = [\<lparr>tid = i, due = d0, cb = RecTimeout\<rparr>]"
    "d0 \<le> clock u" "\<not> dirty u"
  shows "recommendationTimeout (step (Fire i) u)"
proof -
  have h: "handler (Fire i) u =
      u\<lparr>timers := filter (\<lambda>t. tid t \<noteq> i) (timers u), recommendationTimeout := True\<rparr>"
    using assms(1,2) by (simp add: handler.simps fireTimer_def runCallback_def)
  have "\<not> dirty (handler (Fire i) u)" using assms(3) by (simp add: h dirty_def deps_def)
  then have "step (Fire i) u = handler (Fire i) u" by (simp add: step_def settle_clean)
  then show ?thesis by (simp add: h)
qed

lemma decision_timeout_expires:
  assumes "fires s" "timeoutId s = None" "\<forall>t \<in> set (timers s). tid t < nextTimerId s"
  shows "recommendationTimeout (run [Elapse 60000, Fire (nextTimerId s + 3)] (settle s))"
proof -
  let ?u = "(settle s)\<lparr>clock := clock (settle s) + 60000\<rparr>"
  have e: "step (Elapse 60000) (settle s) = ?u" by (simp add: elapse_clean settle_not_dirty)
  have old: "filter (\<lambda>t. tid t = nextTimerId s + 3) (timers s) = []"
    using assms(3) by (auto simp add: filter_empty_conv)
  have f: "filter (\<lambda>t. tid t = nextTimerId s + 3) (timers ?u) =
      [\<lparr>tid = nextTimerId s + 3, due = clock s + 60000, cb = RecTimeout\<rparr>]"
    using old by (simp add: settle_fires_timers[OF assms(1,2)] advisoryTimers_def)
  have c: "clock s + 60000 \<le> clock ?u" by (simp add: settle_kept)
  have d: "\<not> dirty ?u" using settle_not_dirty[of s] by (simp add: dirty_def deps_def)
  from fire_rec_timeout[OF f c d] show ?thesis by (simp add: e)
qed

lemma threshold_state_fields:
  "fires threshold_state"
  "timeoutId threshold_state = None"
  "timers threshold_state = []"
  "settle threshold_state = anomaly_state"
proof -
  show "fires threshold_state"
    unfolding threshold_state_def
    using before_threshold_state_clean before_threshold_state_fields(1,3,2,4)
    by (rule threshold_tick_fires)
  show "timeoutId threshold_state = None"
    by (simp add: threshold_state_def before_threshold_state_def sample_defs eval_defs)
  show "timers threshold_state = []"
    by (simp add: threshold_state_def before_threshold_state_def sample_defs eval_defs)
  show "settle threshold_state = anomaly_state"
    by (simp add: threshold_state_def anomaly_state_step step_def)
qed



subsection \<open>Timer handles in reachable states\<close>

lemma fresh_ids_helpers:
  "fresh_ids s \<Longrightarrow> fresh_ids (setTimeout c d s)"
  "fresh_ids s \<Longrightarrow> fresh_ids (clearTimeout h s)"
  "fresh_ids s \<Longrightarrow> fresh_ids (addLog ev det ty s)"
  "fresh_ids s \<Longrightarrow> fresh_ids (addAgentMessage x mt md s)"
  by (auto simp add: fresh_ids_def setTimeout_def clearTimeout_def addLog_def addAgentMessage_def
      split: option.splits)

lemma fresh_ids_update:
  "timers s' = timers s \<Longrightarrow> nextTimerId s' = nextTimerId s \<Longrightarrow> fresh_ids s \<Longrightarrow> fresh_ids s'"
  by (simp add: fresh_ids_def)

lemma fresh_ids_anomalyBranch: "fresh_ids s \<Longrightarrow> fresh_ids (anomalyBranch s)"
  unfolding anomalyBranch_def
  by (intro fresh_ids_helpers) (simp add: fresh_ids_def)

lemma fresh_ids_metricEffect:
  assumes "fresh_ids s"
  shows "fresh_ids (metricEffect snap s)"
proof -
  have 1: "fresh_ids (s\<lparr>metrics := m, drawn := d\<rparr>)" for m d
    using assms by (simp add: fresh_ids_def)
  show ?thesis
    unfolding metricEffect_def Let_def by (simp add: assms 1 fresh_ids_anomalyBranch)
qed

lemma fresh_ids_timeoutEffect: "fresh_ids s \<Longrightarrow> fresh_ids (timeoutEffect snap s)"
  by (auto simp add: fresh_ids_def timeoutEffect_def Let_def setTimeout_def clearTimeout_def
      split: option.splits)

lemma fresh_ids_syncEffect: "fresh_ids s \<Longrightarrow> fresh_ids (syncEffect snap s)"
  by (simp add: fresh_ids_def syncEffect_def)

lemma fresh_ids_effects_pass: "fresh_ids s \<Longrightarrow> fresh_ids (effects_pass s)"
proof -
  assume f: "fresh_ids s"
  have 1: "fresh_ids (s\<lparr>rendered := deps s\<rparr>)" using f by (simp add: fresh_ids_def)
  show ?thesis
    unfolding effects_pass_def Let_def
    by (simp add: fresh_ids_timeoutEffect fresh_ids_metricEffect fresh_ids_syncEffect 1)
qed

lemma fresh_ids_settle: "fresh_ids s \<Longrightarrow> fresh_ids (settle s)"
  by (simp add: settle_two fresh_ids_effects_pass)

lemma fresh_ids_runCallback: "fresh_ids s \<Longrightarrow> fresh_ids (runCallback c s)"
  by (cases c) (auto simp add: runCallback_def shadowComplete_def fresh_ids_def addLog_def
      addAgentMessage_def)

lemma fresh_ids_handler: "fresh_ids s \<Longrightarrow> fresh_ids (handler e s)"
proof (cases e)
  case StartGuided
  assume "fresh_ids s"
  then show ?thesis
    unfolding StartGuided handler.simps handleStartGuided_def
    by (intro fresh_ids_helpers) (simp add: fresh_ids_def)
next
  case (Fire i)
  assume f: "fresh_ids s"
  then have "fresh_ids (s\<lparr>timers := filter (\<lambda>u. tid u \<noteq> i) (timers s)\<rparr>)"
    by (simp add: fresh_ids_def)
  then show ?thesis
    using f by (simp add: Fire handler.simps fireTimer_def fresh_ids_runCallback split: list.splits)
qed (simp_all add: fresh_ids_def handler.simps handler_defs helper_fields split: option.splits)

lemma fresh_ids_run: "fresh_ids s \<Longrightarrow> fresh_ids (run es s)"
  by (induction es arbitrary: s) (simp_all add: step_def fresh_ids_settle fresh_ids_handler)

lemma handler_timeoutId: "timeoutId (handler e s) = timeoutId s"
  by (cases e)
     (simp_all add: handler.simps handler_defs helper_fields fireTimer_def runCallback_def
       shadowComplete_def split: option.splits list.splits callback.splits)

lemma effects_pass_timeoutId:
  "\<not> phase_changed s \<Longrightarrow> timeoutId (effects_pass s) = timeoutId s"
  "phase_changed s \<Longrightarrow> phase s \<noteq> ANOMALY_DETECTED \<Longrightarrow> timeoutId (effects_pass s) = None"
  by (simp_all add: effects_pass_def Let_def effect_fields)

lemma no_stale_handle_step:
  assumes "no_stale_handle u"
  shows "no_stale_handle (step e u)"
proof -
  let ?h = "handler e u"
  from assms have r: "rendered u = deps u" and t: "phase u \<noteq> ANOMALY_DETECTED \<longrightarrow> timeoutId u = None"
    by (simp_all add: no_stale_handle_def dirty_def)
  have c: "\<not> dirty (step e u)" by (rule step_not_dirty)
  have "phase (step e u) \<noteq> ANOMALY_DETECTED \<longrightarrow> timeoutId (step e u) = None"
  proof
    assume p: "phase (step e u) \<noteq> ANOMALY_DETECTED"
    then have nf: "\<not> fires ?h" by (auto simp add: step_phase)
    with p have ph: "phase ?h \<noteq> ANOMALY_DETECTED" by (simp add: step_def settle_phase)
    show "timeoutId (step e u) = None"
    proof (cases "dirty ?h")
      case False
      then have "phase ?h = phase u"
        using r by (simp add: dirty_def handler_rendered deps_def)
      with False ph t show ?thesis by (simp add: step_def settle_clean handler_timeoutId)
    next
      case True
      then have st: "step e u = effects_pass ?h" using nf by (simp add: step_def settle_two)
      show ?thesis
      proof (cases "phase_changed ?h")
        case True
        then show ?thesis using ph by (simp add: st effects_pass_timeoutId)
      next
        case False
        then have "phase ?h = phase u"
          using r by (simp add: phase_changed_def handler_rendered deps_def)
        with False ph t show ?thesis by (simp add: st effects_pass_timeoutId handler_timeoutId)
      qed
    qed
  qed
  with c show ?thesis by (simp add: no_stale_handle_def)
qed

lemma no_stale_handle_run: "no_stale_handle s \<Longrightarrow> no_stale_handle (run es s)"
  by (induction es arbitrary: s) (simp_all add: no_stale_handle_step)

lemma init_handles: "fresh_ids (init net dflt r t0)" "no_stale_handle (init net dflt r t0)"
  by (simp_all add: fresh_ids_def no_stale_handle_def init_def dirty_def deps_def)

lemma firing_state_handles:
  assumes "fires (handler e (run es (init net dflt r t0)))"
  shows "timeoutId (handler e (run es (init net dflt r t0))) = None"
    "\<forall>t \<in> set (timers (handler e (run es (init net dflt r t0)))). tid t < nextTimerId (handler e (run es (init net dflt r t0)))"
proof -
  let ?u = "run es (init net dflt r t0)"
  have n: "no_stale_handle ?u" by (intro no_stale_handle_run init_handles)
  have f: "fresh_ids (handler e ?u)" by (intro fresh_ids_handler fresh_ids_run init_handles)
  then show "\<forall>t \<in> set (timers (handler e ?u)). tid t < nextTimerId (handler e ?u)"
    by (simp add: fresh_ids_def)
  from assms have m: "phase (handler e ?u) = MONITORING" "tickIndex (handler e ?u) = ANOMALY_TICK_INDEX"
    by (simp_all add: fires_def takes_branch_def)
  have "phase ?u \<noteq> ANOMALY_DETECTED"
  proof
    assume a: "phase ?u = ANOMALY_DETECTED"
    with m(1) have "e = StartCanary" by (cases e) (simp_all add: handler_phase)
    with m(2) show False by (simp add: handler_tickIndex ANOMALY_TICK_INDEX_def)
  qed
  with n show "timeoutId (handler e ?u) = None"
    by (simp add: no_stale_handle_def handler_timeoutId)
qed

lemma anomaly_state_clean: "\<not> dirty anomaly_state"
  by (simp add: anomaly_state_step step_not_dirty)

lemma threshold_state_run:
  "threshold_state =
     handler Tick (run (to_setup @ [StartCanary] @ one_tick @ one_tick @ [Elapse 1000]) (init True 5 (\<lambda>_. 0) 0))"
  by (simp add: threshold_state_def before_threshold_state_def monitoring_state_def
      setup_state_def mounted_def run_append)

section \<open>Rollback, replay and the network switch, over every continuation\<close>

subsection \<open>The decimal rendering of the confidence\<close>



subsection \<open>Every step after the rollback\<close>





lemma dialog_state_fields:
  "phase dialog_state = ANOMALY_DETECTED"
  "showRollbackModal dialog_state"
  "offered ConfirmRollback dialog_state"
  "agentConfidence dialog_state = 83"
  "metrics dialog_state = metrics anomaly_state"
  "\<not> dirty dialog_state"
  "timeoutId dialog_state = Some 5"
  "step ConfirmRollback dialog_state = rolled_back_state"
proof -
  have nf: "\<not> fires (handler RollbackClick anomaly_state)"
    by (simp add: not_fires handler_phase anomaly_state_fields)
  show "phase dialog_state = ANOMALY_DETECTED"
    by (simp add: dialog_state_def step_phase_plain anomaly_state_fields)
  show m: "showRollbackModal dialog_state"
    by (simp add: dialog_state_def step_kept handler_showRollbackModal)
  then show "offered ConfirmRollback dialog_state" by simp
  show "agentConfidence dialog_state = 83"
    using nf by (simp add: dialog_state_def step_def settle_agentConfidence)
      (simp add: handler.simps handleRollbackClick_def anomaly_state_fields)
  have "\<not> dirty (handler RollbackClick anomaly_state)"
    using anomaly_state_clean by (simp add: handler.simps handleRollbackClick_def dirty_def deps_def)
  then have h: "dialog_state = handler RollbackClick anomaly_state"
    by (simp add: dialog_state_def step_def settle_clean)
  show "metrics dialog_state = metrics anomaly_state" by (simp add: h handler_metrics)
  show "\<not> dirty dialog_state" by (simp add: dialog_state_def step_not_dirty)
  show "timeoutId dialog_state = Some 5" by (simp add: h handler_timeoutId anomaly_state_fields)
  show "step ConfirmRollback dialog_state = rolled_back_state"
    by (simp add: rolled_back_state_def dialog_state_def)
qed

subsection \<open>The rollback\<close>





lemma anomaly_state_reached:
  "offered_run (to_setup @ [StartCanary] @ one_tick @ one_tick @ one_tick) mounted"
  "run (to_setup @ [StartCanary] @ one_tick @ one_tick @ one_tick) mounted = anomaly_state"
proof -
  have "offered StartCanary setup_state" by (simp add: setup_state_fields)
  then show "offered_run (to_setup @ [StartCanary] @ one_tick @ one_tick @ one_tick) mounted"
    using setup_state_fields(2) anomaly_state_fields(6)
    by (simp add: offered_run_append setup_state_def[symmetric] monitoring_state_def[symmetric])
  show "run (to_setup @ [StartCanary] @ one_tick @ one_tick @ one_tick) mounted = anomaly_state"
    by (simp add: run_append anomaly_state_def monitoring_state_def setup_state_def)
qed



subsection \<open>The network switched off\<close>

lemma network_off_any_step:
  assumes "\<not> networkEnabled s" "e \<noteq> ToggleNetwork"
  shows "\<not> networkEnabled (step e s)"
    "\<not> sampling (handler e s)"
    "metricEffect (handler e s) x = x"
    "metrics (step e s) =
       (if e = StartCanary
        then initialData (addLog ''Canary Rollout Started'' ''Traffic split: 95/5. Monitoring started.'' info s)
        else if e = Replay then initialData s else metrics s)"
proof -
  have n: "\<not> networkEnabled (handler e s)" using assms by (simp add: handler_networkEnabled)
  then show "\<not> networkEnabled (step e s)" by (simp add: step_kept)
  from n show q: "\<not> sampling (handler e s)" by (simp add: sampling_def)
  then show "metricEffect (handler e s) x = x" by (rule metricEffect_idle)
  from q have "metrics (step e s) = metrics (handler e s)" by (rule step_metrics_idle)
  then show "metrics (step e s) =
       (if e = StartCanary
        then initialData (addLog ''Canary Rollout Started'' ''Traffic split: 95/5. Monitoring started.'' info s)
        else if e = Replay then initialData s else metrics s)"
    by (simp only: handler_metrics)
qed

lemma network_off_any_run:
  "\<not> networkEnabled s \<Longrightarrow> ToggleNetwork \<notin> set es \<Longrightarrow>
   \<not> networkEnabled (run es s)
   \<and> (metrics (run es s) = metrics s \<or> length (metrics (run es s)) = 10)"
proof (induction es arbitrary: s rule: rev_induct)
  case Nil
  then show ?case by simp
next
  case (snoc e es)
  from snoc.prems have ne: "e \<noteq> ToggleNetwork" and rest: "ToggleNetwork \<notin> set es" by auto
  from snoc.IH[OF snoc.prems(1) rest]
  have n: "\<not> networkEnabled (run es s)"
    and m: "metrics (run es s) = metrics s \<or> length (metrics (run es s)) = 10" by simp_all
  have 1: "\<not> networkEnabled (step e (run es s))" using n ne by (rule network_off_any_step)
  have 2: "metrics (step e (run es s)) = metrics (run es s) \<or> length (metrics (step e (run es s))) = 10"
    by (simp add: network_off_any_step(4)[OF n ne] length_initialData)
  from 1 2 m show ?case by (auto simp add: run_append)
qed

text \<open>
  Claim C6, as the code has it. While the network is disabled the guard of the metric
  effect is false, in every phase: no live sample is appended. After every event other
  than the network switch, the network is still disabled and the history is what it was
  before the event, except that starting the canary and replay, which do not look at the
  network, put the ten warm-up points in its place. So over any events other than the
  network switch the history is the one it was or has ten points, and without a start of
  the canary and without a replay it is the one it was. The interval does not look at
  the network either: each tick still adds one to \<open>tickIndex\<close>, and leaves phase and
  history alone.
\<close>

theorem network_off_freezes_history:
  "(\<not> networkEnabled s \<and> e \<noteq> ToggleNetwork \<longrightarrow>
      \<not> networkEnabled (step e s)
      \<and> \<not> sampling (handler e s)
      \<and> metricEffect (handler e s) x = x
      \<and> metrics (step e s) =
          (if e = StartCanary
           then initialData (addLog ''Canary Rollout Started'' ''Traffic split: 95/5. Monitoring started.'' info s)
           else if e = Replay then initialData s else metrics s))
   \<and> length (initialData s) = 10
   \<and> (\<not> networkEnabled s \<and> ToggleNetwork \<notin> set es \<longrightarrow>
      \<not> networkEnabled (run es s)
      \<and> (metrics (run es s) = metrics s \<or> length (metrics (run es s)) = 10))
   \<and> (\<not> networkEnabled s \<and> ToggleNetwork \<notin> set es \<and> StartCanary \<notin> set es \<and> Replay \<notin> set es \<longrightarrow>
      metrics (run es s) = metrics s)
   \<and> (\<not> networkEnabled s \<and> offered Tick s \<longrightarrow>
      tickIndex (step Tick s) = tickIndex s + 1
      \<and> phase (step Tick s) = phase s
      \<and> metrics (step Tick s) = metrics s)"
proof (intro conjI impI)
  assume a: "\<not> networkEnabled s \<and> e \<noteq> ToggleNetwork"
  then have n: "\<not> networkEnabled s" and ne: "e \<noteq> ToggleNetwork" by simp_all
  from n ne show "\<not> networkEnabled (step e s)" by (rule network_off_any_step)
  from n ne show "\<not> sampling (handler e s)" by (rule network_off_any_step)
  from n ne show "metricEffect (handler e s) x = x" by (rule network_off_any_step)
  from n ne show "metrics (step e s) =
          (if e = StartCanary
           then initialData (addLog ''Canary Rollout Started'' ''Traffic split: 95/5. Monitoring started.'' info s)
           else if e = Replay then initialData s else metrics s)"
    by (rule network_off_any_step)
next
  show "length (initialData s) = 10" by (rule length_initialData)
next
  assume a: "\<not> networkEnabled s \<and> ToggleNetwork \<notin> set es"
  then have r: "\<not> networkEnabled (run es s)
      \<and> (metrics (run es s) = metrics s \<or> length (metrics (run es s)) = 10)"
    by (intro network_off_any_run) simp_all
  then show "\<not> networkEnabled (run es s)" by simp
  from r show "metrics (run es s) = metrics s \<or> length (metrics (run es s)) = 10" by simp
next
  assume "\<not> networkEnabled s \<and> ToggleNetwork \<notin> set es \<and> StartCanary \<notin> set es \<and> Replay \<notin> set es"
  then have "metrics (run es s) = metrics s \<and> \<not> networkEnabled (run es s)"
    by (intro network_off_run) simp_all
  then show "metrics (run es s) = metrics s" by simp
next
  assume a: "\<not> networkEnabled s \<and> offered Tick s"
  then show "tickIndex (step Tick s) = tickIndex s + 1" by (simp add: network_off_tick)
  from a show "phase (step Tick s) = phase s" by (simp add: network_off_tick)
  from a show "metrics (step Tick s) = metrics s" by (simp add: network_off_step)
qed

lemma offline_anomaly_state_fields:
  "phase offline_anomaly_state = ANOMALY_DETECTED"
  "\<not> networkEnabled offline_anomaly_state"
  "length (metrics offline_anomaly_state) = 15"
  "tickIndex offline_anomaly_state = 3"
  "offered Replay offline_anomaly_state"
proof -
  show p: "phase offline_anomaly_state = ANOMALY_DETECTED"
    by (simp add: offline_anomaly_state_def step_phase_plain anomaly_state_fields)
  then show "offered Replay offline_anomaly_state" by simp
  have n: "\<not> networkEnabled (handler ToggleNetwork anomaly_state)"
    by (simp add: handler_networkEnabled anomaly_state_fields)
  then show "\<not> networkEnabled offline_anomaly_state"
    by (simp add: offline_anomaly_state_def step_kept)
  from n have "\<not> sampling (handler ToggleNetwork anomaly_state)" by (simp add: sampling_def)
  then show "length (metrics offline_anomaly_state) = 15"
    by (simp add: offline_anomaly_state_def step_metrics_idle handler_metrics anomaly_state_fields)
  show "tickIndex offline_anomaly_state = 3"
    by (simp add: offline_anomaly_state_def step_kept handler_tickIndex anomaly_state_fields)
qed

theorem network_off_freezes_history_witness:
  "\<not> networkEnabled (step Replay offline_anomaly_state)
   \<and> \<not> sampling (handler Replay offline_anomaly_state)
   \<and> metricEffect (handler Replay offline_anomaly_state) mounted = mounted
   \<and> metrics (step Replay offline_anomaly_state) = initialData offline_anomaly_state
   \<and> length (initialData offline_anomaly_state) = 10
   \<and> \<not> networkEnabled (run [Replay, Elapse 1000] offline_anomaly_state)
   \<and> (metrics (run [Replay, Elapse 1000] offline_anomaly_state) = metrics offline_anomaly_state
       \<or> length (metrics (run [Replay, Elapse 1000] offline_anomaly_state)) = 10)
   \<and> metrics (run one_tick offline_state) = metrics offline_state
   \<and> tickIndex (step Tick (step (Elapse 1000) offline_state)) = tickIndex (step (Elapse 1000) offline_state) + 1
   \<and> phase (step Tick (step (Elapse 1000) offline_state)) = phase (step (Elapse 1000) offline_state)
   \<and> metrics (step Tick (step (Elapse 1000) offline_state)) = metrics (step (Elapse 1000) offline_state)"
proof -
  note A = network_off_freezes_history[of offline_anomaly_state Replay mounted "[Replay, Elapse 1000]"]
  note B = network_off_freezes_history[of offline_state Tick mounted one_tick]
  note C = network_off_freezes_history[of "step (Elapse 1000) offline_state" Tick mounted "[]"]
  have 1: "\<not> networkEnabled (step Replay offline_anomaly_state)
   \<and> \<not> sampling (handler Replay offline_anomaly_state)
   \<and> metricEffect (handler Replay offline_anomaly_state) mounted = mounted
   \<and> metrics (step Replay offline_anomaly_state) = initialData offline_anomaly_state"
    using A[THEN conjunct1] offline_anomaly_state_fields(2) by simp
  have 2: "length (initialData offline_anomaly_state) = 10"
    using A[THEN conjunct2, THEN conjunct1] .
  have 3: "\<not> networkEnabled (run [Replay, Elapse 1000] offline_anomaly_state)
   \<and> (metrics (run [Replay, Elapse 1000] offline_anomaly_state) = metrics offline_anomaly_state
       \<or> length (metrics (run [Replay, Elapse 1000] offline_anomaly_state)) = 10)"
    using A[THEN conjunct2, THEN conjunct2, THEN conjunct1] offline_anomaly_state_fields(2)
    by (simp del: run.simps)
  have 4: "metrics (run one_tick offline_state) = metrics offline_state"
    using B[THEN conjunct2, THEN conjunct2, THEN conjunct2, THEN conjunct1] offline_state_fields(2)
    by (simp add: one_tick_def del: run.simps)
  have n: "\<not> networkEnabled (step (Elapse 1000) offline_state)"
    by (simp add: step_kept handler_networkEnabled offline_state_fields)
  have o: "offered Tick (step (Elapse 1000) offline_state)"
    using offline_state_fields(4) by (simp add: one_tick_def)
  have 5: "tickIndex (step Tick (step (Elapse 1000) offline_state)) = tickIndex (step (Elapse 1000) offline_state) + 1
   \<and> phase (step Tick (step (Elapse 1000) offline_state)) = phase (step (Elapse 1000) offline_state)
   \<and> metrics (step Tick (step (Elapse 1000) offline_state)) = metrics (step (Elapse 1000) offline_state)"
    using C[THEN conjunct2, THEN conjunct2, THEN conjunct2, THEN conjunct2] n o by blast
  from 1 2 3 4 5 show ?thesis by blast
qed

text \<open>
  Against C6 as stated: monitoring with the network off, one tick of the interval takes
  \<open>tickIndex\<close> from 0 to 1; and with the anomaly detected and the network off, the
  replay button is enabled and takes the history from fifteen points to ten.
\<close>

theorem network_off_counterexample:
  "phase offline_state = MONITORING
   \<and> \<not> networkEnabled offline_state
   \<and> offered_run one_tick offline_state
   \<and> tickIndex offline_state = 0
   \<and> tickIndex (run one_tick offline_state) = 1
   \<and> phase offline_anomaly_state = ANOMALY_DETECTED
   \<and> \<not> networkEnabled offline_anomaly_state
   \<and> length (metrics offline_anomaly_state) = 15
   \<and> offered Replay offline_anomaly_state
   \<and> phase (step Replay offline_anomaly_state) = ANOMALY_DETECTED
   \<and> \<not> networkEnabled (step Replay offline_anomaly_state)
   \<and> length (metrics (step Replay offline_anomaly_state)) = 10"
proof -
  have "\<not> networkEnabled (step (Elapse 1000) offline_state)"
    by (simp add: step_kept handler_networkEnabled offline_state_fields)
  moreover have "offered Tick (step (Elapse 1000) offline_state)"
    using offline_state_fields(4) by (simp add: one_tick_def)
  ultimately have "tickIndex (step Tick (step (Elapse 1000) offline_state)) =
      tickIndex (step (Elapse 1000) offline_state) + 1"
    by (rule network_off_tick)
  then have 1: "tickIndex (run one_tick offline_state) = 1"
    by (simp add: one_tick_def step_kept(1)[of "Elapse 1000"] handler_tickIndex offline_state_fields)
  have 2: "phase (step Replay offline_anomaly_state) = ANOMALY_DETECTED"
    by (simp add: step_phase_plain offline_anomaly_state_fields)
  have 3: "\<not> networkEnabled (step Replay offline_anomaly_state)"
    using offline_anomaly_state_fields(2) by (intro network_off_any_step) simp_all
  have "metrics (step Replay offline_anomaly_state) = initialData offline_anomaly_state"
    using network_off_any_step(4)[OF offline_anomaly_state_fields(2), of Replay] by simp
  then have 4: "length (metrics (step Replay offline_anomaly_state)) = 10"
    by (simp add: length_initialData)
  from 1 2 3 4 offline_state_fields offline_anomaly_state_fields show ?thesis by blast
qed

section \<open>The decision timeout once the decision is made\<close>

lemma leaving_cancels_timer:
  assumes "\<not> dirty u" "phase u = ANOMALY_DETECTED" "phase (step e u) \<noteq> ANOMALY_DETECTED"
  shows "timers (step e u) = timers (clearTimeout (timeoutId u) (handler e u))"
proof -
  let ?h = "handler e u"
  have r: "rendered u = deps u" using assms(1) by (rule clean_deps)
  have ph: "phase ?h \<noteq> ANOMALY_DETECTED"
    using assms(3) by (auto simp add: step_phase handler_phase split: if_splits)
  then have nf: "\<not> fires ?h" using assms(3) by (auto simp add: step_phase)
  have pc: "phase_changed ?h"
    using r ph assms(2) by (simp add: phase_changed_def handler_rendered deps_def)
  then have d: "dirty ?h"
    by (cases "rendered ?h") (auto simp add: dirty_def deps_def phase_changed_def)
  have st: "step e u = effects_pass ?h" using d nf by (simp add: step_def settle_two)
  have nb: "\<not> (metric_deps_changed ?h \<and> takes_branch ?h)" using nf by (simp add: fires_def)
  show ?thesis
    using pc ph nb
    by (cases "timeoutId u")
       (auto simp add: st effects_pass_def Let_def effect_fields clearTimeout_timers handler_timeoutId)
qed

lemma continue_keeps_timers:
  assumes "\<not> dirty u"
  shows "timers (step ContinueRollout u) = timers u"
    "timeoutId (step ContinueRollout u) = timeoutId u"
    "phase (step ContinueRollout u) = phase u"
proof -
  have "\<not> dirty (handler ContinueRollout u)"
    using assms by (simp add: handler.simps handleContinueRollout_def helper_fields dirty_def deps_def)
  then have s: "step ContinueRollout u = handler ContinueRollout u"
    by (simp add: step_def settle_clean)
  show "timers (step ContinueRollout u) = timers u"
    by (simp add: s handler.simps handleContinueRollout_def helper_fields)
  show "timeoutId (step ContinueRollout u) = timeoutId u" by (simp add: s handler_timeoutId)
  show "phase (step ContinueRollout u) = phase u" by (simp add: s handler_phase)
qed

lemma anomaly_state_timers:
  "timers anomaly_state =
     [\<lparr>tid = 2, due = 5500, cb = AgentMsg txt_alert alert None\<rparr>,
      \<lparr>tid = 3, due = 6500, cb = AgentMsg txt_delta alert None\<rparr>,
      \<lparr>tid = 4, due = 8000, cb = AgentMsg txt_recommendation recommendation (Some meta_recommendation)\<rparr>,
      \<lparr>tid = 5, due = 65000, cb = RecTimeout\<rparr>]"
  "clock anomaly_state = 5000"
  "recommendationTimeout anomaly_state = False"
proof -
  have n: "nextTimerId threshold_state = 2" "clock threshold_state = 5000"
    by (simp_all add: threshold_state_def before_threshold_state_def sample_defs eval_defs)
  note t = settle_fires_timers(1)[OF threshold_state_fields(1,2)]
  show "timers anomaly_state =
     [\<lparr>tid = 2, due = 5500, cb = AgentMsg txt_alert alert None\<rparr>,
      \<lparr>tid = 3, due = 6500, cb = AgentMsg txt_delta alert None\<rparr>,
      \<lparr>tid = 4, due = 8000, cb = AgentMsg txt_recommendation recommendation (Some meta_recommendation)\<rparr>,
      \<lparr>tid = 5, due = 65000, cb = RecTimeout\<rparr>]"
    using t by (simp add: threshold_state_fields n advisoryTimers_def)
  show "clock anomaly_state = 5000"
    using n(2) by (simp add: threshold_state_fields(4)[symmetric] settle_kept)
  show "recommendationTimeout anomaly_state = False"
    by (simp add: before_threshold_state_def anomaly_state_step sample_defs eval_defs)
qed

text \<open>
  The anomaly transition. When the anomaly fires (the metric effect takes its anomaly
  branch, from MONITORING), the phase becomes ANOMALY_DETECTED, the agent confidence is
  83 again, "Anomaly Detected" is the newest entry of the audit log, and four timeouts
  are pending behind those there were: the alert after 500 ms, the quantified detail
  after 1500 ms, the recommendation (confidence 83, risk High) after 3000 ms, each
  adding its agent message when it runs, and the decision timeout after 60000 ms, which
  sets \<open>recommendationTimeout\<close> when it runs. In every run of the mounted component,
  the state in which the anomaly fires has no decision timeout pending and no timer
  under an id still to be given out, as assumed here. Continuing the rollout and
  confirming the rollback reset \<open>recommendationTimeout\<close>. Every step that takes the
  phase out of ANOMALY_DETECTED resets it too, drops the handle of the decision timeout
  and cancels the timeout itself; continuing the rollout leaves the pending timeouts
  and the handle as they are.
\<close>

theorem anomaly_transition_scheduled:
  "(fires s \<and> timeoutId s = None \<longrightarrow>
      phase s = MONITORING
      \<and> phase (settle s) = ANOMALY_DETECTED
      \<and> agentConfidence (settle s) = 83
      \<and> logs (settle s) = anomalyLog (s\<lparr>drawn := drawn s + 3\<rparr>) # logs s
      \<and> event (hd (logs (settle s))) = ''Anomaly Detected''
      \<and> timers (settle s) =
          timers s @
          [\<lparr>tid = nextTimerId s, due = clock s + 500, cb = AgentMsg txt_alert alert None\<rparr>,
           \<lparr>tid = nextTimerId s + 1, due = clock s + 1500, cb = AgentMsg txt_delta alert None\<rparr>,
           \<lparr>tid = nextTimerId s + 2, due = clock s + 3000,
             cb = AgentMsg txt_recommendation recommendation (Some meta_recommendation)\<rparr>,
           \<lparr>tid = nextTimerId s + 3, due = clock s + 60000, cb = RecTimeout\<rparr>]
      \<and> timeoutId (settle s) = Some (nextTimerId s + 3))
   \<and> confidence meta_recommendation = Some 83 \<and> risk meta_recommendation = Some High
   \<and> messages (runCallback (AgentMsg x ty md) u) =
        messages u @ [\<lparr>msg_id = rand u (drawn u), msg_text = x, msg_timestamp = clock u,
                       sender = Terra, msg_type = ty, metadata = md\<rparr>]
   \<and> recommendationTimeout (runCallback RecTimeout u)
   \<and> (fires s \<and> timeoutId s = None \<and> fresh_ids s \<longrightarrow>
        recommendationTimeout (run [Elapse 60000, Fire (nextTimerId s + 3)] (settle s)))
   \<and> (fires (handler e' (run es (init net dflt r t0))) \<longrightarrow>
        timeoutId (handler e' (run es (init net dflt r t0))) = None
        \<and> fresh_ids (handler e' (run es (init net dflt r t0))))
   \<and> \<not> recommendationTimeout (step ContinueRollout u)
   \<and> \<not> recommendationTimeout (step ConfirmRollback u)
   \<and> (\<not> dirty u \<longrightarrow>
        timers (step ContinueRollout u) = timers u
        \<and> timeoutId (step ContinueRollout u) = timeoutId u)
   \<and> (\<not> dirty v \<and> phase v = ANOMALY_DETECTED \<and> phase (step e v) \<noteq> ANOMALY_DETECTED \<longrightarrow>
        \<not> recommendationTimeout (step e v)
        \<and> timeoutId (step e v) = None
        \<and> timers (step e v) = timers (clearTimeout (timeoutId v) (handler e v)))"
proof (intro conjI impI)
  assume a: "fires s \<and> timeoutId s = None"
  then have f: "fires s" and t: "timeoutId s = None" by simp_all
  show "phase s = MONITORING" using f by (simp add: fires_def takes_branch_def)
  show "phase (settle s) = ANOMALY_DETECTED" using f by (simp add: settle_phase)
  show "agentConfidence (settle s) = 83" using f by (simp add: settle_agentConfidence)
  show "logs (settle s) = anomalyLog (s\<lparr>drawn := drawn s + 3\<rparr>) # logs s"
    using f by (simp add: settle_logs)
  show "event (hd (logs (settle s))) = ''Anomaly Detected''"
    using f by (simp add: settle_logs anomalyLog_def)
  show "timers (settle s) =
          timers s @
          [\<lparr>tid = nextTimerId s, due = clock s + 500, cb = AgentMsg txt_alert alert None\<rparr>,
           \<lparr>tid = nextTimerId s + 1, due = clock s + 1500, cb = AgentMsg txt_delta alert None\<rparr>,
           \<lparr>tid = nextTimerId s + 2, due = clock s + 3000,
             cb = AgentMsg txt_recommendation recommendation (Some meta_recommendation)\<rparr>,
           \<lparr>tid = nextTimerId s + 3, due = clock s + 60000, cb = RecTimeout\<rparr>]"
    by (simp add: settle_fires_timers[OF f t] advisoryTimers_def)
  show "timeoutId (settle s) = Some (nextTimerId s + 3)" by (rule settle_fires_timers[OF f t])
next
  show "confidence meta_recommendation = Some 83" by (simp add: meta_recommendation_def)
  show "risk meta_recommendation = Some High" by (simp add: meta_recommendation_def)
  show "messages (runCallback (AgentMsg x ty md) u) =
        messages u @ [\<lparr>msg_id = rand u (drawn u), msg_text = x, msg_timestamp = clock u,
                       sender = Terra, msg_type = ty, metadata = md\<rparr>]"
    by (simp add: runCallback_def helper_fields)
  show "recommendationTimeout (runCallback RecTimeout u)" by (simp add: runCallback_def)
  show "\<not> recommendationTimeout (step ContinueRollout u)" by (rule resolved_clears_timeout)
  show "\<not> recommendationTimeout (step ConfirmRollback u)" by (rule resolved_clears_timeout)
next
  assume "fires s \<and> timeoutId s = None \<and> fresh_ids s"
  then show "recommendationTimeout (run [Elapse 60000, Fire (nextTimerId s + 3)] (settle s))"
    by (intro decision_timeout_expires) (simp_all add: fresh_ids_def)
next
  assume a: "fires (handler e' (run es (init net dflt r t0)))"
  then show "timeoutId (handler e' (run es (init net dflt r t0))) = None"
    by (rule firing_state_handles)
  from firing_state_handles(2)[OF a]
  show "fresh_ids (handler e' (run es (init net dflt r t0)))" by (simp add: fresh_ids_def)
next
  assume a: "\<not> dirty u"
  then show "timers (step ContinueRollout u) = timers u" by (rule continue_keeps_timers)
  from a show "timeoutId (step ContinueRollout u) = timeoutId u" by (rule continue_keeps_timers)
next
  assume a: "\<not> dirty v \<and> phase v = ANOMALY_DETECTED \<and> phase (step e v) \<noteq> ANOMALY_DETECTED"
  then show "\<not> recommendationTimeout (step e v)" by (intro leaving_clears_timeout) simp_all
  from a show "timeoutId (step e v) = None" by (intro leaving_clears_timeout) simp_all
  from a show "timers (step e v) = timers (clearTimeout (timeoutId v) (handler e v))"
    by (intro leaving_cancels_timer) simp_all
qed

theorem anomaly_transition_scheduled_witness:
  "phase threshold_state = MONITORING
   \<and> phase anomaly_state = ANOMALY_DETECTED
   \<and> agentConfidence anomaly_state = 83
   \<and> event (hd (logs anomaly_state)) = ''Anomaly Detected''
   \<and> timers anomaly_state =
          [\<lparr>tid = nextTimerId threshold_state, due = clock threshold_state + 500,
             cb = AgentMsg txt_alert alert None\<rparr>,
           \<lparr>tid = nextTimerId threshold_state + 1, due = clock threshold_state + 1500,
             cb = AgentMsg txt_delta alert None\<rparr>,
           \<lparr>tid = nextTimerId threshold_state + 2, due = clock threshold_state + 3000,
             cb = AgentMsg txt_recommendation recommendation (Some meta_recommendation)\<rparr>,
           \<lparr>tid = nextTimerId threshold_state + 3, due = clock threshold_state + 60000,
             cb = RecTimeout\<rparr>]
   \<and> timeoutId anomaly_state = Some (nextTimerId threshold_state + 3)
   \<and> recommendationTimeout (run [Elapse 60000, Fire (nextTimerId threshold_state + 3)] anomaly_state)
   \<and> fresh_ids threshold_state
   \<and> \<not> recommendationTimeout (step ContinueRollout anomaly_state)
   \<and> timers (step ContinueRollout anomaly_state) = timers anomaly_state
   \<and> timeoutId (step ContinueRollout anomaly_state) = timeoutId anomaly_state
   \<and> offered ConfirmRollback dialog_state
   \<and> \<not> recommendationTimeout (step ConfirmRollback dialog_state)
   \<and> timeoutId (step ConfirmRollback dialog_state) = None
   \<and> timers (step ConfirmRollback dialog_state) =
        timers (clearTimeout (Some 5) (handler ConfirmRollback dialog_state))"
proof -
  have 1: "phase (step ConfirmRollback dialog_state) \<noteq> ANOMALY_DETECTED"
    by (simp add: ConfirmRollback_facts)
  have 2: "fires (handler Tick (run (to_setup @ [StartCanary] @ one_tick @ one_tick @ [Elapse 1000])
      (init True 5 (\<lambda>_. 0) 0)))"
    using threshold_state_fields(1) by (simp add: threshold_state_run)
  have 3: "fresh_ids threshold_state" by (simp add: fresh_ids_def threshold_state_fields)
  from 1 3 show ?thesis
    using anomaly_transition_scheduled[where s = threshold_state and x = txt_alert and ty = alert
        and md = None and u = anomaly_state and e' = Tick
        and es = "to_setup @ [StartCanary] @ one_tick @ one_tick @ [Elapse 1000]"
        and net = True and dflt = 5 and r = "\<lambda>_. 0" and ?t0.0 = 0
        and v = dialog_state and e = ConfirmRollback]
      2 threshold_state_fields anomaly_state_clean dialog_state_fields(1,3,6,7)
    by (simp add: anomalyLog_def)
qed

lemma continued_run:
  "offered_run [ContinueRollout, Elapse 60000, Fire 5] anomaly_state"
  "timers (step ContinueRollout anomaly_state) = timers anomaly_state"
  "event (hd (logs (step ContinueRollout anomaly_state))) = ''Rollout Continued''"
  "phase (run [ContinueRollout, Elapse 60000, Fire 5] anomaly_state) = ANOMALY_DETECTED"
  "recommendationTimeout (run [ContinueRollout, Elapse 60000, Fire 5] anomaly_state)"
proof -
  let ?c = "step ContinueRollout anomaly_state"
  let ?e = "step (Elapse 60000) ?c"
  show t: "timers ?c = timers anomaly_state" using anomaly_state_clean by (rule continue_keeps_timers)
  have c: "clock ?c = 5000" by (simp add: step_kept handler_clock anomaly_state_timers)
  have e: "?e = ?c\<lparr>clock := clock ?c + 60000\<rparr>" by (simp add: elapse_clean step_not_dirty)
  have te: "timers ?e = timers anomaly_state" "clock ?e = 65000" by (simp_all add: e t c)
  have "offered (Fire 5) ?e" by (simp add: te anomaly_state_timers)
  then show "offered_run [ContinueRollout, Elapse 60000, Fire 5] anomaly_state"
    by (simp add: anomaly_state_fields)
  have nf: "\<not> fires (handler ContinueRollout anomaly_state)"
    by (simp add: not_fires handler_phase anomaly_state_fields)
  then show "event (hd (logs ?c)) = ''Rollout Continued''"
    by (simp add: step_logs_plain) (simp add: handler.simps handleContinueRollout_def helper_fields addLog_def)
  show "phase (run [ContinueRollout, Elapse 60000, Fire 5] anomaly_state) = ANOMALY_DETECTED"
    by (simp add: step_phase_plain anomaly_state_fields)
  have f: "filter (\<lambda>t. tid t = 5) (timers ?e) = [\<lparr>tid = 5, due = 65000, cb = RecTimeout\<rparr>]"
    by (simp add: te anomaly_state_timers)
  have "recommendationTimeout (step (Fire 5) ?e)"
    using f by (rule fire_rec_timeout) (simp_all add: te step_not_dirty)
  then show "recommendationTimeout (run [ContinueRollout, Elapse 60000, Fire 5] anomaly_state)"
    by simp
qed

lemma rollback_run:
  "offered_run [RollbackClick, ConfirmRollback, Elapse 60000] anomaly_state"
  "timers rolled_back_state = filter (\<lambda>t. tid t \<noteq> 5) (timers anomaly_state)"
  "\<not> offered (Fire 5) (run [RollbackClick, ConfirmRollback, Elapse 60000] anomaly_state)"
  "\<not> recommendationTimeout (run [RollbackClick, ConfirmRollback, Elapse 60000] anomaly_state)"
proof -
  let ?e = "step (Elapse 60000) rolled_back_state"
  show "offered_run [RollbackClick, ConfirmRollback, Elapse 60000] anomaly_state"
    using rolled_back_state_reached by simp
  have "\<not> dirty (handler RollbackClick anomaly_state)"
    using anomaly_state_clean by (simp add: handler.simps handleRollbackClick_def dirty_def deps_def)
  then have h: "dialog_state = handler RollbackClick anomaly_state"
    by (simp add: dialog_state_def step_def settle_clean)
  have d: "timers (handler ConfirmRollback dialog_state) = timers anomaly_state"
    by (simp add: handler.simps confirmRollback_def clearInterval_def helper_fields)
       (simp add: h handler.simps handleRollbackClick_def)
  have "phase (step ConfirmRollback dialog_state) \<noteq> ANOMALY_DETECTED"
    by (simp add: ConfirmRollback_facts)
  with dialog_state_fields(6,1)
  have "timers (step ConfirmRollback dialog_state) =
      timers (clearTimeout (timeoutId dialog_state) (handler ConfirmRollback dialog_state))"
    by (rule leaving_cancels_timer)
  then show t: "timers rolled_back_state = filter (\<lambda>t. tid t \<noteq> 5) (timers anomaly_state)"
    by (simp add: dialog_state_fields(7,8) clearTimeout_timers d)
  have r: "rolled_back_state = step ConfirmRollback dialog_state"
    by (simp add: dialog_state_fields(8))
  have c: "\<not> dirty rolled_back_state" by (simp add: r step_not_dirty)
  then have e: "?e = rolled_back_state\<lparr>clock := clock rolled_back_state + 60000\<rparr>"
    by (rule elapse_clean)
  have "\<not> offered (Fire 5) ?e" by (simp add: e t)
  then show "\<not> offered (Fire 5) (run [RollbackClick, ConfirmRollback, Elapse 60000] anomaly_state)"
    by (simp add: rolled_back_state_def)
  have "\<not> recommendationTimeout rolled_back_state" by (simp add: r resolved_clears_timeout)
  then have "\<not> recommendationTimeout ?e" by (simp add: e)
  then show "\<not> recommendationTimeout (run [RollbackClick, ConfirmRollback, Elapse 60000] anomaly_state)"
    by (simp add: rolled_back_state_def)
qed

text \<open>
  Claim C7, on the code. The anomaly transition is as stated above. The last part of the
  claim holds when the phase leaves ANOMALY_DETECTED, and fails when the rollout is
  continued: \<open>handleContinueRollout\<close> resets \<open>recommendationTimeout\<close> and leaves the
  decision timeout pending. In the guided scenario the anomaly is detected at 5000 ms
  and its decision timeout (handle 5) is due at 65000 ms. The operator continues the
  rollout: "Rollout Continued" is logged, the flag is off, and the timeout is still
  pending. Sixty seconds later it fires, and the decision that was made is marked timed
  out, in ANOMALY_DETECTED. On the other path, after the rollback is requested and
  confirmed, no decision timeout is pending, none can fire, and the flag stays off.
\<close>

theorem continue_rollout_keeps_decision_timer:
  "offered_run (to_setup @ [StartCanary] @ one_tick @ one_tick @ one_tick) mounted
   \<and> run (to_setup @ [StartCanary] @ one_tick @ one_tick @ one_tick) mounted = anomaly_state
   \<and> phase anomaly_state = ANOMALY_DETECTED
   \<and> \<not> recommendationTimeout anomaly_state
   \<and> timeoutId anomaly_state = Some 5
   \<and> filter (\<lambda>t. cb t = RecTimeout) (timers anomaly_state) =
        [\<lparr>tid = 5, due = 65000, cb = RecTimeout\<rparr>]
   \<and> offered_run [ContinueRollout, Elapse 60000, Fire 5] anomaly_state
   \<and> event (hd (logs (step ContinueRollout anomaly_state))) = ''Rollout Continued''
   \<and> \<not> recommendationTimeout (step ContinueRollout anomaly_state)
   \<and> filter (\<lambda>t. cb t = RecTimeout) (timers (step ContinueRollout anomaly_state)) =
        [\<lparr>tid = 5, due = 65000, cb = RecTimeout\<rparr>]
   \<and> phase (run [ContinueRollout, Elapse 60000, Fire 5] anomaly_state) = ANOMALY_DETECTED
   \<and> recommendationTimeout (run [ContinueRollout, Elapse 60000, Fire 5] anomaly_state)
   \<and> offered_run [RollbackClick, ConfirmRollback, Elapse 60000] anomaly_state
   \<and> filter (\<lambda>t. cb t = RecTimeout) (timers (run [RollbackClick, ConfirmRollback] anomaly_state)) = []
   \<and> \<not> offered (Fire 5) (run [RollbackClick, ConfirmRollback, Elapse 60000] anomaly_state)
   \<and> \<not> recommendationTimeout (run [RollbackClick, ConfirmRollback, Elapse 60000] anomaly_state)"
proof -
  have 1: "filter (\<lambda>t. cb t = RecTimeout) (timers anomaly_state) =
        [\<lparr>tid = 5, due = 65000, cb = RecTimeout\<rparr>]"
    by (simp add: anomaly_state_timers)
  then have 2: "filter (\<lambda>t. cb t = RecTimeout) (timers (step ContinueRollout anomaly_state)) =
        [\<lparr>tid = 5, due = 65000, cb = RecTimeout\<rparr>]"
    by (simp add: continued_run(2))
  have 3: "filter (\<lambda>t. cb t = RecTimeout) (timers (run [RollbackClick, ConfirmRollback] anomaly_state)) = []"
    using rollback_run(2) by (simp add: rolled_back_state_def anomaly_state_timers)
  have 4: "\<not> recommendationTimeout anomaly_state" by (simp add: anomaly_state_timers)
  have 5: "\<not> recommendationTimeout (step ContinueRollout anomaly_state)"
    by (rule resolved_clears_timeout)
  from 1 2 3 4 5 show ?thesis
    using anomaly_state_reached anomaly_state_fields(1,9) continued_run(1,3,4,5) rollback_run(1,3,4)
    by blast
qed

end
